theory Spec2Isabelle
  imports Complex_Main "HOL-Library.Word" "HOL-Library.Sublist"
begin

section \<open>Python values used by the backend\<close>

text \<open>
  The backend (FastAPI route \<open>search_photos\<close> with its services) is Python. An exception
  is a value: \<open>HTTPException status detail\<close> is FastAPI's exception, \<open>Exception msg\<close>
  stands for every other exception, with \<open>str(e) = msg\<close>. A call that may raise returns
  \<open>exn + 'a\<close>, \<open>Inl\<close> being the raise.

  Python floats are kept as exact rationals: \<open>count / total\<close> on two ints is the exact
  quotient here, where Python rounds it to the nearest double.
\<close>

datatype exn = HTTPException nat string | Exception string

type_synonym bytes = "8 word list"

type_synonym datetime = int
  \<comment> \<open>a \<open>datetime\<close> in microseconds since the epoch\<close>

definition timedelta_hours :: "int \<Rightarrow> int" where
  "timedelta_hours h = h * 3600000000"

subsection \<open>Dictionaries in insertion order\<close>

text \<open>
  A Python dict iterates in insertion order, and \<open>max\<close> over a dict depends on that
  order, so a dict is an association list: assigning to a key that is present keeps its
  position, assigning to a new key appends it.
\<close>

type_synonym ('k, 'v) dict = "('k \<times> 'v) list"

fun dict_set :: "('k, 'v) dict \<Rightarrow> 'k \<Rightarrow> 'v \<Rightarrow> ('k, 'v) dict" where
  "dict_set [] k v = [(k, v)]"
| "dict_set ((k', v') # kvs) k v =
     (if k' = k then (k, v) # kvs else (k', v') # dict_set kvs k v)"

definition dict_get :: "('k, 'v) dict \<Rightarrow> 'k \<Rightarrow> 'v \<Rightarrow> 'v" where
  "dict_get d k dflt = (case map_of d k of None \<Rightarrow> dflt | Some v \<Rightarrow> v)"

definition dict_item :: "(string, 'v) dict \<Rightarrow> string \<Rightarrow> exn + 'v" where
  \<comment> \<open>\<open>d[k]\<close>, a KeyError when the key is absent\<close>
  "dict_item d k = (case map_of d k of None \<Rightarrow> Inl (Exception ''KeyError'') | Some v \<Rightarrow> Inr v)"

text \<open>
  \<open>max(d, key=d.get)\<close>: the keys are visited in order and the running best is replaced only
  by a key with a strictly greater value, so the first key with the greatest value wins;
  on an empty dict, \<open>max\<close> raises ValueError.
\<close>

fun max_from :: "('k \<times> 'v::linorder) \<Rightarrow> ('k, 'v) dict \<Rightarrow> ('k \<times> 'v)" where
  "max_from best [] = best"
| "max_from best (kv # kvs) = max_from (if snd best < snd kv then kv else best) kvs"

definition max_key :: "('k, 'v::linorder) dict \<Rightarrow> exn + 'k" where
  "max_key d = (case d of [] \<Rightarrow> Inl (Exception ''ValueError'')
                | kv # kvs \<Rightarrow> Inr (fst (max_from kv kvs)))"

section \<open>services/emotion.py\<close>

type_synonym emotion_triple = "string \<times> (string, rat) dict \<times> rat"

text \<open>
  \<open>analyze_emotion(image_path)\<close>. \<open>image_open\<close> is \<open>Image.open(image_path).convert('RGB')\<close>:
  \<open>Some msg\<close> when it raises, \<open>None\<close> when the image loads (the loaded image is not used
  afterwards, the distribution is the source's mock literal). The \<open>try\<close> body is the inner
  \<open>case\<close>, the \<open>except Exception\<close> handler is the outer one.
\<close>

definition mock_emotion_dist :: "(string, rat) dict" where
  "mock_emotion_dist =
     [(''happy'', 45 / 100), (''sad'', 15 / 100), (''angry'', 10 / 100), (''neutral'', 20 / 100),
      (''fear'', 5 / 100), (''surprise'', 3 / 100), (''disgust'', 2 / 100)]"

definition analyze_emotion :: "(string \<Rightarrow> string option) \<Rightarrow> string \<Rightarrow> exn + emotion_triple" where
  "analyze_emotion image_open image_path =
     (case (case image_open image_path of
              Some msg \<Rightarrow> Inl (Exception msg)
            | None \<Rightarrow>
                (let emotion_dist = mock_emotion_dist in
                 case max_key emotion_dist of
                   Inl e \<Rightarrow> Inl e
                 | Inr dominant_emotion \<Rightarrow>
                     (case dict_item emotion_dist dominant_emotion of
                        Inl e \<Rightarrow> Inl e
                      | Inr confidence \<Rightarrow> Inr (dominant_emotion, emotion_dist, confidence))))
      of Inl e \<Rightarrow> Inr (''neutral'', [], 0)
       | Inr r \<Rightarrow> Inr r)"

text \<open>
  One entry of \<open>emotion_results\<close>, the dict built in the loop of \<open>search_photos\<close>; the
  prefix \<open>r_\<close> keeps the keys apart from the parameters of the same name.
\<close>

record emotion_result =
  r_image_id :: string
  r_image_url :: string
  r_emotion :: string
  r_emotion_distribution :: "(string, rat) dict"
  r_emotion_confidence :: rat
  r_similarity_score :: rat

text \<open>The counting loop of \<open>aggregate_emotions\<close>, from the dict built so far.\<close>

fun count_emotions :: "emotion_result list \<Rightarrow> (string, nat) dict \<Rightarrow> (string, nat) dict" where
  "count_emotions [] emotion_counts = emotion_counts"
| "count_emotions (result # results) emotion_counts =
     count_emotions results
       (dict_set emotion_counts (r_emotion result) (dict_get emotion_counts (r_emotion result) 0 + 1))"

definition aggregate_emotions :: "emotion_result list \<Rightarrow> exn + (string \<times> rat \<times> (string, rat) dict)" where
  "aggregate_emotions emotion_results =
     (if emotion_results = [] then Inr (''neutral'', 0, [])
      else
        let emotion_counts = count_emotions emotion_results [] in
        case max_key emotion_counts of
          Inl e \<Rightarrow> Inl e
        | Inr dominant_emotion \<Rightarrow>
            (let total_images = length emotion_results in
             case dict_item emotion_counts dominant_emotion of
               Inl e \<Rightarrow> Inl e
             | Inr n \<Rightarrow>
                 Inr (dominant_emotion,
                      of_nat n / of_nat total_images,
                      map (\<lambda>(emotion, count). (emotion, of_nat count / of_nat total_images))
                        emotion_counts)))"

section \<open>config.py\<close>

text \<open>The fields of \<open>Settings\<close> that the route and its services read, with their defaults.\<close>

record Settings =
  AWS_S3_BUCKET :: string
  MAX_IMAGES_TO_PROCESS :: int
  FACE_SIMILARITY_THRESHOLD :: rat
  SESSION_EXPIRY_HOURS :: int

definition default_settings :: Settings where
  "default_settings =
     \<lparr>AWS_S3_BUCKET = ''face-emotion-bucket'', MAX_IMAGES_TO_PROCESS = 50,
      FACE_SIMILARITY_THRESHOLD = 6 / 10, SESSION_EXPIRY_HOURS = 24\<rparr>"

section \<open>services/database.py: tables\<close>

text \<open>
  One record per ORM class, one field per column; the prefix tells the tables apart.
  \<open>session_id\<close> is the primary key of \<open>session_user\<close>, \<open>emotion_id\<close> of \<open>emotion_log\<close>,
  \<open>aggregation_id\<close> of \<open>session_aggregated_emotion\<close>, whose \<open>session_id\<close> is unique.
\<close>

record SessionUser =
  su_session_id :: string
  su_user_name :: string
  su_captured_image_base64 :: string
  su_captured_image_path :: "string option"
  su_embedding :: "bytes option"
  su_status :: string
  su_privacy_policy_agreed :: string
  su_timestamp :: datetime
  su_created_at :: datetime
  su_expires_at :: datetime

record EmotionLog =
  el_emotion_id :: string
  el_image_id :: string
  el_session_id :: string
  el_emotion_label :: string
  el_confidence :: rat
  el_emotion_distribution :: "(string, rat) dict"
  el_analyzed_at :: datetime

record SessionAggregatedEmotion =
  ag_aggregation_id :: string
  ag_session_id :: string
  ag_dominant_emotion :: string
  ag_emotion_confidence :: rat
  ag_emotion_distribution :: "(string, rat) dict"
  ag_statement :: string
  ag_created_at :: datetime

section \<open>The world outside the route\<close>

text \<open>
  \<open>calls\<close> is the sequence of service calls the route has made, so that "no call is
  made" and "before" can be stated; the route appends to it just before each call.
\<close>

datatype call =
    InsertSessionUser string
  | UploadImage string
  | DetectFace
  | ExtractEmbedding
  | GetMatchedImages
  | AnalyzeEmotion string
  | InsertEmotionLog string
  | AggregateEmotions nat
  | InsertAggregatedEmotion string
  | AddCleanupTask string

text \<open>
  The mutable state: the three tables, the objects of the S3 bucket, the tasks handed to
  \<open>BackgroundTasks\<close>, and three counters saying how many clock readings, database
  transactions and uuids have been taken so far.
\<close>

record world =
  session_user :: "SessionUser list"
  emotion_log :: "EmotionLog list"
  session_aggregated_emotion :: "SessionAggregatedEmotion list"
  s3_objects :: "(string \<times> string, bytes) dict"
  background_tasks :: "string list"
  calls :: "call list"
  clock_reads :: nat
  db_txns :: nat
  uuids :: nat

definition called :: "call \<Rightarrow> world \<Rightarrow> world" where
  "called c w = w\<lparr>calls := calls w @ [c]\<rparr>"

text \<open>One candidate of the similarity search, the dict of \<open>get_matched_images\<close>.\<close>

record candidate =
  c_image_id :: string
  c_image_url :: string
  c_image_path :: string
  c_similarity_score :: rat

text \<open>
  What the code calls and does not define, as functions: \<open>utcnow k\<close> is the k-th reading
  of \<open>datetime.utcnow()\<close>, \<open>uuid4 k\<close> the k-th \<open>uuid.uuid4()\<close>, \<open>db_error k\<close> says whether
  the k-th database transaction raises (\<open>Some msg\<close>) or commits. An \<open>Inl msg\<close> or
  \<open>Some msg\<close> of a library call is the message of the exception it raises.
  \<^item> \<open>imdecode\<close>: \<open>cv2.imdecode(np.frombuffer(...))\<close>, \<open>Inr None\<close> when it returns None;
  \<^item> \<open>detect_largest_face\<close>: \<open>RetinaFace.detect_faces\<close>, then the largest face cropped and
    resized to 112x112; \<open>Inr None\<close> when no face is found;
  \<^item> \<open>face_embedding\<close>: InsightFace's \<open>analyzer.get\<close> and the normalised embedding of the
    first face; \<open>Inr None\<close> when it finds no face;
  \<^item> \<open>image_open\<close>: \<open>Image.open(path).convert('RGB')\<close>;
  \<^item> \<open>str_upper\<close> and \<open>format_1f\<close>: \<open>str.upper\<close> and the \<open>:.1f\<close> format.

  The route reaches the similarity index and the emotion classifier through
  \<open>similarity_index\<close> and \<open>emotion_service\<close>; the source's two placeholders are
  \<open>get_matched_images\<close> and \<open>analyze_emotion\<close>, installed by \<open>with_placeholders\<close>.
  The type \<open>'nd\<close> is \<open>np.ndarray\<close>.
\<close>

record 'nd env =
  settings :: Settings
  utcnow :: "nat \<Rightarrow> datetime"
  uuid4 :: "nat \<Rightarrow> string"
  db_error :: "nat \<Rightarrow> string option"
  b64decode :: "string \<Rightarrow> string + bytes"
  put_object_error :: "string \<Rightarrow> bytes \<Rightarrow> string option"
  imdecode :: "bytes \<Rightarrow> string + 'nd option"
  detect_largest_face :: "'nd \<Rightarrow> string + 'nd option"
  face_embedding :: "'nd \<Rightarrow> string + 'nd option"
  image_open :: "string \<Rightarrow> string option"
  similarity_index :: "'nd \<Rightarrow> int \<Rightarrow> rat \<Rightarrow> candidate list"
  emotion_service :: "string \<Rightarrow> exn + emotion_triple"
  str_upper :: "string \<Rightarrow> string"
  format_1f :: "rat \<Rightarrow> string"

section \<open>services/database.py: operations\<close>

definition str_of_bool :: "bool \<Rightarrow> string" where
  "str_of_bool b = (if b then ''True'' else ''False'')"

text \<open>
  \<open>insert_session_user\<close>: \<open>expires_at\<close> comes from a reading of the clock taken before the
  row is built; \<open>timestamp\<close> and \<open>created_at\<close> are column defaults, each its own later
  reading. A failed commit (the database raises, or the primary key exists) is re-raised.
\<close>

definition insert_session_user ::
    "'nd env \<Rightarrow> string \<Rightarrow> string \<Rightarrow> string \<Rightarrow> bool \<Rightarrow> world \<Rightarrow> (exn + unit) \<times> world" where
  "insert_session_user env session_id user_name captured_image_base64 privacy_policy_agreed w =
     (let expires_at = utcnow env (clock_reads w)
                         + timedelta_hours (SESSION_EXPIRY_HOURS (settings env));
          user = \<lparr>su_session_id = session_id,
                  su_user_name = user_name,
                  su_captured_image_base64 = captured_image_base64,
                  su_captured_image_path = None,
                  su_embedding = None,
                  su_status = ''searching'',
                  su_privacy_policy_agreed = str_of_bool privacy_policy_agreed,
                  su_timestamp = utcnow env (clock_reads w + 1),
                  su_created_at = utcnow env (clock_reads w + 2),
                  su_expires_at = expires_at\<rparr>;
          w1 = w\<lparr>clock_reads := clock_reads w + 3, db_txns := Suc (db_txns w)\<rparr>
      in case db_error env (db_txns w) of
           Some msg \<Rightarrow> (Inl (Exception msg), w1)
         | None \<Rightarrow>
             if session_id \<in> su_session_id ` set (session_user w)
             then (Inl (Exception ''IntegrityError''), w1)
             else (Inr (), w1\<lparr>session_user := session_user w @ [user]\<rparr>))"

text \<open>
  \<open>insert_emotion_log\<close> and \<open>insert_aggregated_emotion\<close>: the \<open>except\<close> handler logs and
  does not re-raise, so a failed commit returns normally and stores nothing.
\<close>

definition insert_emotion_log ::
    "'nd env \<Rightarrow> string \<Rightarrow> string \<Rightarrow> string \<Rightarrow> rat \<Rightarrow> (string, rat) dict \<Rightarrow> world
       \<Rightarrow> (exn + unit) \<times> world" where
  "insert_emotion_log env image_id session_id emotion_label confidence emotion_distribution w =
     (let log = \<lparr>el_emotion_id = uuid4 env (uuids w),
                 el_image_id = image_id,
                 el_session_id = session_id,
                 el_emotion_label = emotion_label,
                 el_confidence = confidence,
                 el_emotion_distribution = emotion_distribution,
                 el_analyzed_at = utcnow env (clock_reads w)\<rparr>;
          w1 = w\<lparr>uuids := Suc (uuids w), clock_reads := Suc (clock_reads w),
                 db_txns := Suc (db_txns w)\<rparr>
      in case (case db_error env (db_txns w) of
                 Some msg \<Rightarrow> Inl (Exception msg)
               | None \<Rightarrow>
                   if el_emotion_id log \<in> el_emotion_id ` set (emotion_log w)
                   then Inl (Exception ''IntegrityError'')
                   else Inr (w1\<lparr>emotion_log := emotion_log w @ [log]\<rparr>))
         of Inl e \<Rightarrow> (Inr (), w1)
          | Inr w2 \<Rightarrow> (Inr (), w2))"

definition insert_aggregated_emotion ::
    "'nd env \<Rightarrow> string \<Rightarrow> string \<Rightarrow> rat \<Rightarrow> (string, rat) dict \<Rightarrow> string \<Rightarrow> world
       \<Rightarrow> (exn + unit) \<times> world" where
  "insert_aggregated_emotion env session_id dominant_emotion emotion_confidence
       emotion_distribution statement w =
     (let agg = \<lparr>ag_aggregation_id = uuid4 env (uuids w),
                 ag_session_id = session_id,
                 ag_dominant_emotion = dominant_emotion,
                 ag_emotion_confidence = emotion_confidence,
                 ag_emotion_distribution = emotion_distribution,
                 ag_statement = statement,
                 ag_created_at = utcnow env (clock_reads w)\<rparr>;
          w1 = w\<lparr>uuids := Suc (uuids w), clock_reads := Suc (clock_reads w),
                 db_txns := Suc (db_txns w)\<rparr>
      in case (case db_error env (db_txns w) of
                 Some msg \<Rightarrow> Inl (Exception msg)
               | None \<Rightarrow>
                   if ag_aggregation_id agg \<in> ag_aggregation_id ` set (session_aggregated_emotion w)
                      \<or> session_id \<in> ag_session_id ` set (session_aggregated_emotion w)
                   then Inl (Exception ''IntegrityError'')
                   else Inr (w1\<lparr>session_aggregated_emotion :=
                                   session_aggregated_emotion w @ [agg]\<rparr>))
         of Inl e \<Rightarrow> (Inr (), w1)
          | Inr w2 \<Rightarrow> (Inr (), w2))"

text \<open>\<open>get_matched_images\<close>, the source's placeholder: a fixed list of one image.\<close>

definition get_matched_images :: "'nd \<Rightarrow> int \<Rightarrow> rat \<Rightarrow> candidate list" where
  "get_matched_images embedding limit threshold =
     [\<lparr>c_image_id = ''1'',
       c_image_url = ''https://example.com/image1.jpg'',
       c_image_path = ''/path/to/image1.jpg'',
       c_similarity_score = 95 / 100\<rparr>]"

text \<open>
  \<open>delete_session\<close>: three filtered deletes in one transaction; the \<open>except\<close> handler logs
  and does not re-raise, and a transaction that raised deleted nothing.
\<close>

definition delete_session :: "'nd env \<Rightarrow> string \<Rightarrow> world \<Rightarrow> (exn + unit) \<times> world" where
  "delete_session env session_id w =
     (let w1 = w\<lparr>db_txns := Suc (db_txns w)\<rparr>
      in case (case db_error env (db_txns w) of
                 Some msg \<Rightarrow> Inl (Exception msg)
               | None \<Rightarrow>
                   Inr (w1\<lparr>session_user :=
                              filter (\<lambda>u. su_session_id u \<noteq> session_id) (session_user w),
                            emotion_log :=
                              filter (\<lambda>l. el_session_id l \<noteq> session_id) (emotion_log w),
                            session_aggregated_emotion :=
                              filter (\<lambda>a. ag_session_id a \<noteq> session_id)
                                (session_aggregated_emotion w)\<rparr>))
         of Inl e \<Rightarrow> (Inr (), w1)
          | Inr w2 \<Rightarrow> (Inr (), w2))"

section \<open>services/s3_storage.py, face_detection.py, embedding.py\<close>

text \<open>
  The data-URL prefix is dropped by \<open>s.split(',')[1]\<close> when the string has a comma: the
  text between the first comma and the second one (or the end).
\<close>

definition after_comma :: "string \<Rightarrow> string" where
  "after_comma s =
     (if CHR '','' \<in> set s
      then takeWhile (\<lambda>c. c \<noteq> CHR '','') (tl (dropWhile (\<lambda>c. c \<noteq> CHR '','') s))
      else s)"

definition upload_image_to_s3 ::
    "'nd env \<Rightarrow> string \<Rightarrow> string \<Rightarrow> world \<Rightarrow> (exn + string) \<times> world" where
  "upload_image_to_s3 env base64_image session_id w =
     (case b64decode env (after_comma base64_image) of
        Inl msg \<Rightarrow> (Inl (Exception msg), w)
      | Inr image_data \<Rightarrow>
          (let key = ''sessions/'' @ session_id @ ''/captured.jpg''
           in case put_object_error env key image_data of
                Some msg \<Rightarrow> (Inl (Exception msg), w)
              | None \<Rightarrow>
                  (Inr (''s3://'' @ AWS_S3_BUCKET (settings env) @ ''/'' @ key),
                   w\<lparr>s3_objects :=
                       dict_set (s3_objects w) (AWS_S3_BUCKET (settings env), key) image_data\<rparr>)))"

definition decode_base64 :: "'nd env \<Rightarrow> string \<Rightarrow> exn + bytes" where
  "decode_base64 env base64_string =
     (case b64decode env (after_comma base64_string) of
        Inl msg \<Rightarrow> Inl (Exception msg)
      | Inr image_bytes \<Rightarrow> Inr image_bytes)"

text \<open>
  \<open>detect_and_align_face\<close> returns None for an image that does not decode, for an image
  without a face and for any exception; \<open>extract_embedding\<close> returns None when no face is
  found and for any exception.
\<close>

definition detect_and_align_face :: "'nd env \<Rightarrow> bytes \<Rightarrow> 'nd option" where
  "detect_and_align_face env image_bytes =
     (case (case imdecode env image_bytes of
              Inl msg \<Rightarrow> Inl (Exception msg)
            | Inr None \<Rightarrow> Inr None
            | Inr (Some decoded) \<Rightarrow>
                (case detect_largest_face env decoded of
                   Inl msg \<Rightarrow> Inl (Exception msg)
                 | Inr None \<Rightarrow> Inr None
                 | Inr (Some aligned_face) \<Rightarrow> Inr (Some aligned_face)))
      of Inl e \<Rightarrow> None
       | Inr r \<Rightarrow> r)"

definition extract_embedding :: "'nd env \<Rightarrow> 'nd \<Rightarrow> 'nd option" where
  "extract_embedding env face_image =
     (case (case face_embedding env face_image of
              Inl msg \<Rightarrow> Inl (Exception msg)
            | Inr None \<Rightarrow> Inr None
            | Inr (Some embedding) \<Rightarrow> Inr (Some embedding))
      of Inl e \<Rightarrow> None
       | Inr r \<Rightarrow> r)"

section \<open>routes/search.py\<close>

record SearchRequest =
  rq_session_id :: string
  rq_user_name :: string
  rq_captured_image :: string
  rq_privacy_policy_agreed :: bool
  rq_timestamp :: string

record SearchResponse =
  rs_matched_count :: int
  rs_matched_images :: "emotion_result list"
  rs_aggregated_state :: "string \<times> rat \<times> (string, rat) dict"
  rs_statement :: string
  rs_session_id :: string

text \<open>\<open>xs[:n]\<close>; a negative \<open>n\<close> counts from the end.\<close>

definition slice_to :: "int \<Rightarrow> 'a list \<Rightarrow> 'a list" where
  "slice_to n xs = (if 0 \<le> n then take (nat n) xs else take (length xs - nat (- n)) xs)"

definition emotion_result_of :: "candidate \<Rightarrow> emotion_triple \<Rightarrow> emotion_result" where
  "emotion_result_of img t =
     (case t of (emotion_label, emotion_dist, confidence) \<Rightarrow>
        \<lparr>r_image_id = c_image_id img,
         r_image_url = c_image_url img,
         r_emotion = emotion_label,
         r_emotion_distribution = emotion_dist,
         r_emotion_confidence = confidence,
         r_similarity_score = c_similarity_score img\<rparr>)"

text \<open>
  Step 6, the loop over the matched images. An exception of the classifier takes the
  \<open>except\<close> branch: the image is skipped. Otherwise the result is appended to
  \<open>emotion_results\<close> first and \<open>insert_emotion_log\<close> is called second, inside the same
  \<open>try\<close>: whatever the insert does, the result stays in the list.
\<close>

fun analyze_matched ::
    "'nd env \<Rightarrow> string \<Rightarrow> candidate list \<Rightarrow> emotion_result list \<Rightarrow> world
       \<Rightarrow> emotion_result list \<times> world" where
  "analyze_matched env session_id [] emotion_results w = (emotion_results, w)"
| "analyze_matched env session_id (img # imgs) emotion_results w =
     (case emotion_service env (c_image_path img) of
        Inl e \<Rightarrow>
          analyze_matched env session_id imgs emotion_results
            (called (AnalyzeEmotion (c_image_path img)) w)
      | Inr t \<Rightarrow>
          (case t of (emotion_label, emotion_dist, confidence) \<Rightarrow>
          (case insert_emotion_log env (c_image_id img) session_id emotion_label confidence
                  emotion_dist
                  (called (InsertEmotionLog (c_image_id img))
                     (called (AnalyzeEmotion (c_image_path img)) w)) of
             (Inl e, w') \<Rightarrow>
               analyze_matched env session_id imgs (emotion_results @ [emotion_result_of img t]) w'
           | (Inr u, w') \<Rightarrow>
               analyze_matched env session_id imgs (emotion_results @ [emotion_result_of img t]) w')))"

text \<open>
  Steps 1 and 2 of \<open>search_photos\<close>, the two storage writes: save the session, upload
  the image. The result is the S3 path, or the exception raised.
\<close>

definition save_session_and_image ::
    "'nd env \<Rightarrow> SearchRequest \<Rightarrow> world \<Rightarrow> (exn + string) \<times> world" where
  "save_session_and_image env request w =
     (case insert_session_user env (rq_session_id request) (rq_user_name request)
             (rq_captured_image request) (rq_privacy_policy_agreed request)
             (called (InsertSessionUser (rq_session_id request)) w) of
        (Inl e, w1) \<Rightarrow> (Inl e, w1)
      | (Inr u, w1) \<Rightarrow>
          upload_image_to_s3 env (rq_captured_image request) (rq_session_id request)
            (called (UploadImage (rq_session_id request)) w1))"

text \<open>
  Steps 1 to 5: after the two writes, detect the face, extract the embedding, query the
  index. The result is the non-empty list of matched images, or the exception raised on
  the way. \<open>embedding.shape\<close> in the log line of step 4 raises AttributeError when
  \<open>extract_embedding\<close> returned None.
\<close>

definition no_shape_message :: string where
  "no_shape_message =
     [CHR 0x27] @ ''NoneType'' @ [CHR 0x27] @ '' object has no attribute '' @ [CHR 0x27]
       @ ''shape'' @ [CHR 0x27]"

definition search_candidates ::
    "'nd env \<Rightarrow> SearchRequest \<Rightarrow> world \<Rightarrow> (exn + candidate list) \<times> world" where
  "search_candidates env request w =
     (case save_session_and_image env request w of
        (Inl e, w2) \<Rightarrow> (Inl e, w2)
      | (Inr image_path, w2) \<Rightarrow>
     (case decode_base64 env (rq_captured_image request) of
        Inl e \<Rightarrow> (Inl e, w2)
      | Inr image_bytes \<Rightarrow>
     (case detect_and_align_face env image_bytes of
        None \<Rightarrow>
          (Inl (HTTPException 400
                  ''No face detected in the image. Please try again with a clearer image.''),
           called DetectFace w2)
      | Some aligned_face \<Rightarrow>
     (case extract_embedding env aligned_face of
        None \<Rightarrow>
          (Inl (Exception no_shape_message),
           called ExtractEmbedding (called DetectFace w2))
      | Some embedding \<Rightarrow>
          (let matched_images =
                 similarity_index env embedding (MAX_IMAGES_TO_PROCESS (settings env))
                   (FACE_SIMILARITY_THRESHOLD (settings env));
               w5 = called GetMatchedImages (called ExtractEmbedding (called DetectFace w2))
           in if matched_images = []
              then (Inl (HTTPException 404 ''No matching faces found in the database.''), w5)
              else (Inr matched_images, w5))))))"

definition statement_of :: "'nd env \<Rightarrow> string \<Rightarrow> rat \<Rightarrow> string" where
  "statement_of env dominant_emotion emotion_confidence =
     ''The person's emotion state is '' @ str_upper env dominant_emotion @ '' (''
       @ format_1f env (emotion_confidence * 100) @ ''% confidence)''"

text \<open>
  The body of the outer \<open>try\<close>: steps 1 to 5, then the loop, the aggregation, the insert
  of the aggregated row, the cleanup task and the response.
\<close>

definition search_photos_body ::
    "'nd env \<Rightarrow> SearchRequest \<Rightarrow> world \<Rightarrow> (exn + SearchResponse) \<times> world" where
  "search_photos_body env request w =
     (case search_candidates env request w of
        (Inl e, w5) \<Rightarrow> (Inl e, w5)
      | (Inr matched_images, w5) \<Rightarrow>
     (case analyze_matched env (rq_session_id request)
             (slice_to (MAX_IMAGES_TO_PROCESS (settings env)) matched_images) [] w5 of
        (emotion_results, w6) \<Rightarrow>
     (case aggregate_emotions emotion_results of
        Inl e \<Rightarrow> (Inl e, called (AggregateEmotions (length emotion_results)) w6)
      | Inr agg \<Rightarrow>
     (case agg of (dominant_emotion, emotion_confidence, emotion_distribution) \<Rightarrow>
     (case insert_aggregated_emotion env (rq_session_id request) dominant_emotion
             emotion_confidence emotion_distribution
             (statement_of env dominant_emotion emotion_confidence)
             (called (InsertAggregatedEmotion (rq_session_id request))
                (called (AggregateEmotions (length emotion_results)) w6)) of
        (Inl e, w7) \<Rightarrow> (Inl e, w7)
      | (Inr u, w7) \<Rightarrow>
          (Inr \<lparr>rs_matched_count = int (length emotion_results),
                rs_matched_images = emotion_results,
                rs_aggregated_state = agg,
                rs_statement = statement_of env dominant_emotion emotion_confidence,
                rs_session_id = rq_session_id request\<rparr>,
           (called (AddCleanupTask (rq_session_id request)) w7)
             \<lparr>background_tasks := background_tasks w7 @ [rq_session_id request]\<rparr>))))))"

text \<open>
  The two \<open>except\<close> clauses of \<open>search_photos\<close>: an HTTPException passes through, any
  other exception becomes HTTP 500 with detail \<open>Search failed: ...\<close>.
\<close>

definition http_error :: "exn \<Rightarrow> exn" where
  "http_error e =
     (case e of
        HTTPException status detail \<Rightarrow> HTTPException status detail
      | Exception msg \<Rightarrow> HTTPException 500 (''Search failed: '' @ msg))"

definition search_photos ::
    "'nd env \<Rightarrow> SearchRequest \<Rightarrow> world \<Rightarrow> (exn + SearchResponse) \<times> world" where
  "search_photos env request w =
     (case search_photos_body env request w of
        (Inl e, w') \<Rightarrow> (Inl (http_error e), w')
      | (Inr response, w') \<Rightarrow> (Inr response, w'))"

text \<open>The source's placeholders as the two services.\<close>

definition with_placeholders :: "'nd env \<Rightarrow> 'nd env" where
  "with_placeholders env =
     env\<lparr>similarity_index := get_matched_images,
         emotion_service := analyze_emotion (image_open env)\<rparr>"

section \<open>Notions used to state the properties\<close>

text \<open>\<open>tally rs l\<close>: how many of the records have \<open>l\<close> as their label.\<close>

definition tally :: "emotion_result list \<Rightarrow> string \<Rightarrow> nat" where
  "tally emotion_results l = count_list (map r_emotion emotion_results) l"

text \<open>The distinct elements of a list, in the order of their first occurrence.\<close>

fun first_seen :: "'a list \<Rightarrow> 'a list" where
  "first_seen [] = []"
| "first_seen (x # xs) = x # removeAll x (first_seen xs)"

text \<open>
  \<open>raises env img\<close>: the classifier raises on this candidate. \<open>classified env imgs\<close>: the
  records of the candidates on which it returns, in order.
\<close>

definition raises :: "'nd env \<Rightarrow> candidate \<Rightarrow> bool" where
  "raises env img = isl (emotion_service env (c_image_path img))"

definition classified :: "'nd env \<Rightarrow> candidate list \<Rightarrow> emotion_result list" where
  "classified env imgs =
     map (\<lambda>img. emotion_result_of img (projr (emotion_service env (c_image_path img))))
       (filter (\<lambda>img. \<not> raises env img) imgs)"

text \<open>
  The calls of the loop over \<open>imgs\<close>: the classifier for each image, then
  \<open>insert_emotion_log\<close> when the classifier returned.
\<close>

definition loop_calls :: "'nd env \<Rightarrow> candidate list \<Rightarrow> call list" where
  "loop_calls env imgs =
     concat (map (\<lambda>img. if raises env img then [AnalyzeEmotion (c_image_path img)]
                        else [AnalyzeEmotion (c_image_path img),
                              InsertEmotionLog (c_image_id img)])
               imgs)"



text \<open>The three tables, and a session that has no row left in any of them.\<close>

definition tables ::
    "world \<Rightarrow> SessionUser list \<times> EmotionLog list \<times> SessionAggregatedEmotion list" where
  "tables w = (session_user w, emotion_log w, session_aggregated_emotion w)"

definition purged :: "string \<Rightarrow> world \<Rightarrow> bool" where
  "purged session_id w =
     (session_id \<notin> su_session_id ` set (session_user w)
      \<and> session_id \<notin> el_session_id ` set (emotion_log w)
      \<and> session_id \<notin> ag_session_id ` set (session_aggregated_emotion w))"

section \<open>Sample inputs\<close>

definition empty_world :: world where
  "empty_world =
     \<lparr>session_user = [], emotion_log = [], session_aggregated_emotion = [], s3_objects = [],
      background_tasks = [], calls = [], clock_reads = 0, db_txns = 0, uuids = 0\<rparr>"

definition sample_request :: SearchRequest where
  "sample_request =
     \<lparr>rq_session_id = ''s-1'', rq_user_name = ''Kabir'',
      rq_captured_image = ''data:image/jpeg;base64,/9j/4AAQ'',
      rq_privacy_policy_agreed = True, rq_timestamp = ''2024-01-01T00:00:00Z''\<rparr>"

definition image1 :: candidate where
  "image1 = \<lparr>c_image_id = ''1'', c_image_url = ''https://example.com/image1.jpg'',
             c_image_path = ''/path/to/image1.jpg'', c_similarity_score = 95 / 100\<rparr>"

definition image2 :: candidate where
  "image2 = \<lparr>c_image_id = ''2'', c_image_url = ''https://example.com/image2.jpg'',
             c_image_path = ''/path/to/image2.jpg'', c_similarity_score = 8 / 10\<rparr>"

text \<open>
  An environment in which every step succeeds, the index finds \<open>image1\<close> and \<open>image2\<close>,
  and the classifier raises on \<open>image2\<close>.
\<close>

definition sample_env :: "nat env" where
  "sample_env =
     \<lparr>settings = default_settings,
      utcnow = (\<lambda>k. 1700000000000000 + int k),
      uuid4 = (\<lambda>k. ''uuid-'' @ replicate k (CHR ''i'')),
      db_error = (\<lambda>k. None),
      b64decode = (\<lambda>s. Inr [0xFF, 0xD8]),
      put_object_error = (\<lambda>key body. None),
      imdecode = (\<lambda>b. Inr (Some 0)),
      detect_largest_face = (\<lambda>i. Inr (Some 1)),
      face_embedding = (\<lambda>f. Inr (Some 2)),
      image_open = (\<lambda>p. None),
      similarity_index = (\<lambda>e limit threshold. [image1, image2]),
      emotion_service =
        (\<lambda>p. if p = ''/path/to/image2.jpg'' then Inl (Exception ''model error'')
             else analyze_emotion (\<lambda>p. None) p),
      str_upper = (\<lambda>s. if s = ''happy'' then ''HAPPY'' else if s = ''neutral'' then ''NEUTRAL'' else s),
      format_1f = (\<lambda>r. if r = 100 then ''100.0'' else if r = 0 then ''0.0'' else ''?'')\<rparr>"

definition all_fail_env :: "nat env" where
  "all_fail_env = sample_env\<lparr>emotion_service := (\<lambda>p. Inl (Exception ''model error''))\<rparr>"

definition no_match_env :: "nat env" where
  "no_match_env = sample_env\<lparr>similarity_index := (\<lambda>e limit threshold. [])\<rparr>"

definition undecodable_env :: "nat env" where
  "undecodable_env = sample_env\<lparr>imdecode := (\<lambda>b. Inr None)\<rparr>"

definition no_face_env :: "nat env" where
  "no_face_env = sample_env\<lparr>detect_largest_face := (\<lambda>i. Inr None)\<rparr>"


text \<open>The source's two placeholders, with an image loader that finds no file.\<close>

definition missing_files_env :: "nat env" where
  "missing_files_env =
     with_placeholders (sample_env\<lparr>image_open := (\<lambda>p. Some ''No such file'')\<rparr>)"

text \<open>
  The source's two placeholders with the threshold raised to 0.99, above the score 0.95 of
  the one image the placeholder index returns; and an index that returns 51 images.
\<close>

definition strict_threshold_env :: "nat env" where
  "strict_threshold_env =
     with_placeholders
       (sample_env\<lparr>settings := default_settings\<lparr>FACE_SIMILARITY_THRESHOLD := 99 / 100\<rparr>\<rparr>)"


definition no_consent_request :: SearchRequest where
  "no_consent_request = sample_request\<lparr>rq_privacy_policy_agreed := False\<rparr>"

definition searched_world :: world where
  "searched_world = snd (search_photos sample_env sample_request empty_world)"

definition three_results :: "emotion_result list" where
  "three_results =
     map (\<lambda>l. \<lparr>r_image_id = ''1'', r_image_url = ''u'', r_emotion = l,
                r_emotion_distribution = [], r_emotion_confidence = 1, r_similarity_score = 1\<rparr>)
       [''happy'', ''happy'', ''sad'']"

section \<open>Dictionaries and the maximum\<close>

lemma map_of_dict_set: "map_of (dict_set d k v) = (map_of d)(k \<mapsto> v)"
  by (induction d) (auto simp: fun_eq_iff)

lemma keys_dict_set:
  "map fst (dict_set d k v) = (if k \<in> fst ` set d then map fst d else map fst d @ [k])"
  by (induction d) (auto simp: rev_image_eqI)

lemma set_keys_dict_set: "fst ` set (dict_set d k v) = insert k (fst ` set d)"
  using keys_dict_set[of d k v] by (metis (no_types, lifting) insert_absorb list.set_map set_append list.simps(15) Un_insert_right sup_bot.right_neutral empty_set)

lemma set_first_seen: "set (first_seen xs) = set xs"
  by (induction xs) auto

lemma distinct_first_seen: "distinct (first_seen xs)"
  by (induction xs) (auto simp: distinct_removeAll)

lemma keys_count_emotions:
  "map fst (count_emotions rs cs) =
     map fst cs @ filter (\<lambda>l. l \<notin> fst ` set cs) (first_seen (map r_emotion rs))"
proof (induction rs arbitrary: cs)
  case Nil
  then show ?case by simp
next
  case (Cons r rs)
  show ?case
    apply (simp add: Cons.IH keys_dict_set set_keys_dict_set removeAll_filter_not_eq)
    apply (auto intro: filter_cong)
    done
qed

lemma map_of_count_emotions:
  "map_of (count_emotions rs cs) l =
     (if l \<in> fst ` set cs \<union> r_emotion ` set rs
      then Some (dict_get cs l 0 + count_list (map r_emotion rs) l) else None)"
proof (induction rs arbitrary: cs)
  case Nil
  then show ?case by (auto simp: dict_get_def map_of_eq_None_iff split: option.splits)
next
  case (Cons r rs)
  show ?case
    apply (simp add: Cons.IH map_of_dict_set set_keys_dict_set dict_get_def)
    done
qed

lemma max_from_split:
  "\<exists>pre post. best # kvs = pre @ max_from best kvs # post
     \<and> (\<forall>kv \<in> set pre. snd kv < snd (max_from best kvs))
     \<and> (\<forall>kv \<in> set post. snd kv \<le> snd (max_from best kvs))"
proof (induction kvs arbitrary: best)
  case Nil
  show ?case by (rule exI[of _ "[]"]) simp
next
  case (Cons kv kvs)
  show ?case
  proof (cases "snd best < snd kv")
    case True
    then have m: "max_from best (kv # kvs) = max_from kv kvs" by simp
    from Cons.IH[of kv] obtain pre post where
      h: "kv # kvs = pre @ max_from kv kvs # post"
         "\<forall>x \<in> set pre. snd x < snd (max_from kv kvs)"
         "\<forall>x \<in> set post. snd x \<le> snd (max_from kv kvs)" by blast
    have "snd kv \<le> snd (max_from kv kvs)"
      using h by (cases pre) (auto simp: less_imp_le)
    with True have lt: "snd best < snd (max_from kv kvs)" by simp
    have "best # kv # kvs = (best # pre) @ max_from kv kvs # post"
      using h(1) by simp
    moreover have "\<forall>x \<in> set (best # pre). snd x < snd (max_from kv kvs)"
      using h(2) lt by simp
    ultimately show ?thesis
      unfolding m using h(3) by blast
  next
    case False
    then have m: "max_from best (kv # kvs) = max_from best kvs" by simp
    from Cons.IH[of best] obtain pre post where
      h: "best # kvs = pre @ max_from best kvs # post"
         "\<forall>x \<in> set pre. snd x < snd (max_from best kvs)"
         "\<forall>x \<in> set post. snd x \<le> snd (max_from best kvs)" by blast
    have b: "snd best \<le> snd (max_from best kvs)"
      using h by (cases pre) (auto simp: less_imp_le)
    with False have kvle: "snd kv \<le> snd (max_from best kvs)" by simp
    show ?thesis
    proof (cases pre)
      case Nil
      from h(1) have "best # kvs = max_from best kvs # post"
        unfolding Nil append_Nil .
      then have e: "best = max_from best kvs" "kvs = post" by blast+
      have "best # kv # kvs = [] @ max_from best kvs # (kv # post)"
        using e(1)[symmetric] e(2) by simp
      moreover have "\<forall>x \<in> set (kv # post). snd x \<le> snd (max_from best kvs)"
        using h(3) kvle by simp
      ultimately show ?thesis unfolding m by (metis empty_iff empty_set)
    next
      case (Cons p ps)
      from h(1) have "best # kvs = p # (ps @ max_from best kvs # post)"
        unfolding Cons append_Cons .
      then have e: "p = best" "kvs = ps @ max_from best kvs # post" by blast+
      have lt: "snd best < snd (max_from best kvs)"
        using h(2) Cons e by simp
      with False have kvlt: "snd kv < snd (max_from best kvs)" by simp
      have "best # kv # kvs = (best # kv # ps) @ max_from best kvs # post"
        using e(2) by simp
      moreover have "\<forall>x \<in> set (best # kv # ps). snd x < snd (max_from best kvs)"
        using h(2) Cons lt kvlt by simp
      ultimately show ?thesis unfolding m using h(3) by blast
    qed
  qed
qed


lemma takeWhile_removeAll:
  assumes "x \<noteq> d"
  shows "set (takeWhile (\<lambda>y. y \<noteq> d) (removeAll x ys)) = set (takeWhile (\<lambda>y. y \<noteq> d) ys) - {x}"
proof (induct ys)
  case Nil
  show ?case by simp
next
  case (Cons y ys)
  with assms show ?case by (cases "y = d"; cases "y = x"; simp; blast)
qed

lemma takeWhile_first_seen:
  "set (takeWhile (\<lambda>y. y \<noteq> d) (first_seen xs)) = set (takeWhile (\<lambda>y. y \<noteq> d) xs)"
  by (induction xs) (auto simp: takeWhile_removeAll)

lemma takeWhile_distinct_split:
  "distinct (ps @ d # qs) \<Longrightarrow> takeWhile (\<lambda>y. y \<noteq> d) (ps @ d # qs) = ps"
  by (induction ps) auto

lemma keys_count_emotions_start:
  "map fst (count_emotions rs []) = first_seen (map r_emotion rs)"
  by (simp add: keys_count_emotions)

lemma distinct_count_emotions_start: "distinct (map fst (count_emotions rs []))"
  by (simp add: keys_count_emotions_start distinct_first_seen)

lemma map_of_count_emotions_start:
  "map_of (count_emotions rs []) l =
     (if l \<in> r_emotion ` set rs then Some (tally rs l) else None)"
  by (simp add: map_of_count_emotions tally_def dict_get_def)

lemma mem_count_emotions_start:
  "(l, c) \<in> set (count_emotions rs []) \<longleftrightarrow> l \<in> r_emotion ` set rs \<and> c = tally rs l"
  using map_of_eq_Some_iff[OF distinct_count_emotions_start, of rs l c]
  by (auto simp: map_of_count_emotions_start split: if_splits)

section \<open>Aggregation is a majority vote\<close>

lemma max_from_mem: "max_from best kvs \<in> set (best # kvs)"
  by (induction kvs arbitrary: best) auto

lemma aggregate_emotions_empty: "aggregate_emotions [] = Inr (''neutral'', 0, [])"
  by (simp add: aggregate_emotions_def)

lemma aggregate_emotions_returns: "\<exists>t. aggregate_emotions emotion_results = Inr t"
proof (cases "emotion_results = []")
  case True
  then show ?thesis by (simp add: aggregate_emotions_def)
next
  case False
  define cs where "cs = count_emotions emotion_results []"
  have "set (map fst cs) = set (map r_emotion emotion_results)"
    unfolding cs_def keys_count_emotions_start by (rule set_first_seen)
  with False have "cs \<noteq> []" by auto
  then obtain kv kvs where cs: "cs = kv # kvs" by (cases cs) auto
  have "max_from kv kvs \<in> set cs" unfolding cs by (rule max_from_mem)
  then have "fst (max_from kv kvs) \<in> fst ` set cs" by (rule imageI)
  then obtain n where "map_of cs (fst (max_from kv kvs)) = Some n"
    by (cases "map_of cs (fst (max_from kv kvs))") (auto simp: map_of_eq_None_iff)
  then show ?thesis
    using False
    by (simp add: aggregate_emotions_def Let_def max_key_def dict_item_def cs_def[symmetric] cs)
qed

text \<open>
  C3. For a non-empty list of N classified records, \<open>aggregate_emotions\<close> returns a
  dominant label, a confidence and a distribution such that: the dominant label is the label
  of some record and no label has a greater tally; every label met before the first
  occurrence of the dominant label has a strictly smaller tally (a tie goes to the label
  met first); the confidence is the dominant label's tally divided by N; and the
  distribution has one entry per label met, its tally divided by N.
\<close>

theorem aggregate_emotions_majority_vote:
  assumes "emotion_results \<noteq> []"
  shows "\<exists>dominant distribution.
           aggregate_emotions emotion_results =
             Inr (dominant,
                  of_nat (tally emotion_results dominant) / of_nat (length emotion_results),
                  distribution)
         \<and> dominant \<in> r_emotion ` set emotion_results
         \<and> (\<forall>l \<in> r_emotion ` set emotion_results.
               tally emotion_results l \<le> tally emotion_results dominant)
         \<and> (\<forall>l \<in> set (takeWhile (\<lambda>x. x \<noteq> dominant) (map r_emotion emotion_results)).
               tally emotion_results l < tally emotion_results dominant)
         \<and> distinct (map fst distribution)
         \<and> (\<forall>l. map_of distribution l =
               (if l \<in> r_emotion ` set emotion_results
                then Some (of_nat (tally emotion_results l) / of_nat (length emotion_results))
                else None))"
proof -
  define cs where "cs = count_emotions emotion_results []"
  define N where "N = length emotion_results"
  define dist where "dist = map (\<lambda>(emotion, count). (emotion, (of_nat count :: rat) / of_nat N)) cs"
  have keys: "map fst cs = first_seen (map r_emotion emotion_results)"
    unfolding cs_def by (rule keys_count_emotions_start)
  have dis: "distinct (map fst cs)"
    unfolding cs_def by (rule distinct_count_emotions_start)
  have mem: "(l, c) \<in> set cs \<longleftrightarrow> l \<in> r_emotion ` set emotion_results \<and> c = tally emotion_results l" for l c
    unfolding cs_def by (rule mem_count_emotions_start)
  have "set (map fst cs) = set (map r_emotion emotion_results)"
    unfolding keys by (rule set_first_seen)
  then have keyset: "fst ` set cs = r_emotion ` set emotion_results" by simp
  with assms have "cs \<noteq> []" by auto
  then obtain kv kvs where cs: "cs = kv # kvs" by (cases cs) auto
  define m where "m = max_from kv kvs"
  obtain pre post where
    sp: "cs = pre @ m # post"
    and lo: "\<forall>x \<in> set pre. snd x < snd m"
    and hi: "\<forall>x \<in> set post. snd x \<le> snd m"
    using max_from_split[of kv kvs] unfolding cs m_def by blast
  have m_in: "(fst m, snd m) \<in> set cs" using sp by simp
  then have d_in: "fst m \<in> r_emotion ` set emotion_results"
    and sm: "snd m = tally emotion_results (fst m)"
    using mem by blast+
  have mo: "map_of cs (fst m) = Some (snd m)"
    using map_of_eq_Some_iff[OF dis] m_in by blast
  have mk: "max_key cs = Inr (fst m)"
    by (simp add: max_key_def cs m_def)
  have res: "aggregate_emotions emotion_results = Inr (fst m, of_nat (snd m) / of_nat N, dist)"
    using assms mk mo
    by (simp add: aggregate_emotions_def Let_def dict_item_def cs_def[symmetric] N_def[symmetric] dist_def)
  have le: "tally emotion_results l \<le> tally emotion_results (fst m)"
    if "l \<in> r_emotion ` set emotion_results" for l
  proof -
    from that have "(l, tally emotion_results l) \<in> set cs" using mem by blast
    then have "(l, tally emotion_results l) \<in> set pre \<or> (l, tally emotion_results l) = m
        \<or> (l, tally emotion_results l) \<in> set post"
      unfolding sp by auto
    then show ?thesis
    proof (elim disjE)
      assume "(l, tally emotion_results l) \<in> set pre"
      with lo have "tally emotion_results l < snd m" by force
      then show ?thesis unfolding sm by simp
    next
      assume "(l, tally emotion_results l) = m"
      then have "fst m = l" by auto
      then show ?thesis by simp
    next
      assume "(l, tally emotion_results l) \<in> set post"
      with hi have "tally emotion_results l \<le> snd m" by force
      then show ?thesis unfolding sm by simp
    qed
  qed
  have lt: "tally emotion_results l < tally emotion_results (fst m)"
    if "l \<in> set (takeWhile (\<lambda>x. x \<noteq> fst m) (map r_emotion emotion_results))" for l
  proof -
    have "distinct (map fst pre @ fst m # map fst post)"
      using dis sp by simp
    then have "takeWhile (\<lambda>x. x \<noteq> fst m) (map fst pre @ fst m # map fst post) = map fst pre"
      by (rule takeWhile_distinct_split)
    moreover have "map fst pre @ fst m # map fst post = first_seen (map r_emotion emotion_results)"
      using keys unfolding sp by simp
    ultimately have "map fst pre =
        takeWhile (\<lambda>x. x \<noteq> fst m) (first_seen (map r_emotion emotion_results))"
      by simp
    then have "set (map fst pre) =
        set (takeWhile (\<lambda>x. x \<noteq> fst m) (map r_emotion emotion_results))"
      by (simp only: takeWhile_first_seen)
    with that have "l \<in> fst ` set pre" by simp
    then obtain c where c: "(l, c) \<in> set pre" by force
    then have "(l, c) \<in> set cs" unfolding sp by simp
    then have "c = tally emotion_results l" using mem by blast
    moreover from c lo have "c < snd m" by force
    ultimately show ?thesis unfolding sm by simp
  qed
  have dd: "distinct (map fst dist)"
    using dis by (simp add: dist_def case_prod_unfold comp_def)
  have dm: "map_of dist l =
               (if l \<in> r_emotion ` set emotion_results
                then Some (of_nat (tally emotion_results l) / of_nat N)
                else None)" for l
  proof -
    have "map_of dist l = map_option (\<lambda>c. of_nat c / of_nat N) (map_of cs l)"
      unfolding dist_def by (simp add: map_of_map)
    also have "map_of cs l = (if l \<in> r_emotion ` set emotion_results then Some (tally emotion_results l) else None)"
      unfolding cs_def by (simp add: map_of_count_emotions tally_def dict_get_def)
    finally show ?thesis by simp
  qed
  show ?thesis
    apply (rule exI[of _ "fst m"])
    apply (rule exI[of _ dist])
    apply (intro conjI ballI allI)
         apply (simp add: res sm N_def)
        apply (rule d_in)
       apply (erule le)
      apply (erule lt)
     apply (rule dd)
    apply (simp add: dm N_def)
    done
qed


lemma aggregate_emotions_three_results:
  "aggregate_emotions three_results = Inr (''happy'', 2 / 3, [(''happy'', 2 / 3), (''sad'', 1 / 3)])"
  by (simp add: aggregate_emotions_def three_results_def max_key_def dict_item_def dict_get_def)

theorem aggregate_emotions_majority_vote_witness:
  "three_results \<noteq> []
   \<and> aggregate_emotions three_results
        = Inr (''happy'', 2 / 3, [(''happy'', 2 / 3), (''sad'', 1 / 3)])
   \<and> (\<exists>dominant distribution.
          aggregate_emotions three_results =
            Inr (dominant,
                 of_nat (tally three_results dominant) / of_nat (length three_results),
                 distribution)
          \<and> distinct (map fst distribution))"
proof -
  have h: "three_results \<noteq> []" by (simp add: three_results_def)
  from aggregate_emotions_majority_vote[OF h]
  have e: "\<exists>dominant distribution.
          aggregate_emotions three_results =
            Inr (dominant,
                 of_nat (tally three_results dominant) / of_nat (length three_results),
                 distribution)
          \<and> distinct (map fst distribution)"
    by blast
  show ?thesis
    by (intro conjI) (rule h, rule aggregate_emotions_three_results, rule e)
qed

section \<open>The loop and the route, step by step\<close>

lemma insert_emotion_log_returns:
  "fst (insert_emotion_log env image_id session_id emotion_label confidence d w) = Inr ()"
  by (simp add: insert_emotion_log_def Let_def split: option.splits)

lemma insert_emotion_log_frame:
  "session_user (snd (insert_emotion_log env i s l c d w)) = session_user w"
  "session_aggregated_emotion (snd (insert_emotion_log env i s l c d w)) = session_aggregated_emotion w"
  "s3_objects (snd (insert_emotion_log env i s l c d w)) = s3_objects w"
  "background_tasks (snd (insert_emotion_log env i s l c d w)) = background_tasks w"
  "calls (snd (insert_emotion_log env i s l c d w)) = calls w"
  "db_txns (snd (insert_emotion_log env i s l c d w)) = Suc (db_txns w)"
  "uuids (snd (insert_emotion_log env i s l c d w)) = Suc (uuids w)"
  "clock_reads (snd (insert_emotion_log env i s l c d w)) = Suc (clock_reads w)"
  by (simp_all add: insert_emotion_log_def Let_def split: option.splits)

lemma insert_aggregated_emotion_returns:
  "fst (insert_aggregated_emotion env s dm c d st w) = Inr ()"
  by (simp add: insert_aggregated_emotion_def Let_def split: option.splits)

lemma insert_aggregated_emotion_frame:
  "session_user (snd (insert_aggregated_emotion env s dm c d st w)) = session_user w"
  "emotion_log (snd (insert_aggregated_emotion env s dm c d st w)) = emotion_log w"
  "s3_objects (snd (insert_aggregated_emotion env s dm c d st w)) = s3_objects w"
  "background_tasks (snd (insert_aggregated_emotion env s dm c d st w)) = background_tasks w"
  "calls (snd (insert_aggregated_emotion env s dm c d st w)) = calls w"
  by (simp_all add: insert_aggregated_emotion_def Let_def split: option.splits)

lemma called_simps:
  "session_user (called c w) = session_user w"
  "emotion_log (called c w) = emotion_log w"
  "session_aggregated_emotion (called c w) = session_aggregated_emotion w"
  "s3_objects (called c w) = s3_objects w"
  "background_tasks (called c w) = background_tasks w"
  "calls (called c w) = calls w @ [c]"
  "clock_reads (called c w) = clock_reads w"
  "db_txns (called c w) = db_txns w"
  "uuids (called c w) = uuids w"
  by (simp_all add: called_def)

lemma analyze_matched_raise:
  "emotion_service env (c_image_path img) = Inl e \<Longrightarrow>
     analyze_matched env sid (img # imgs) acc w =
       analyze_matched env sid imgs acc (called (AnalyzeEmotion (c_image_path img)) w)"
  by simp

lemma analyze_matched_return:
  "emotion_service env (c_image_path img) = Inr t \<Longrightarrow>
     analyze_matched env sid (img # imgs) acc w =
       analyze_matched env sid imgs (acc @ [emotion_result_of img t])
         (snd (insert_emotion_log env (c_image_id img) sid (fst t) (snd (snd t)) (fst (snd t))
                 (called (InsertEmotionLog (c_image_id img))
                    (called (AnalyzeEmotion (c_image_path img)) w))))"
  by (cases t) (simp split: prod.splits sum.splits)

lemma classified_Cons:
  "classified env (img # imgs) =
     (case emotion_service env (c_image_path img) of
        Inl e \<Rightarrow> classified env imgs
      | Inr t \<Rightarrow> emotion_result_of img t # classified env imgs)"
  by (simp add: classified_def raises_def split: sum.splits)

lemma analyze_matched_results:
  "fst (analyze_matched env sid imgs acc w) = acc @ classified env imgs"
proof (induction imgs arbitrary: acc w)
  case Nil
  show ?case by (simp add: classified_def)
next
  case (Cons img imgs)
  show ?case
  proof (cases "emotion_service env (c_image_path img)")
    case (Inl e)
    then show ?thesis by (simp only: analyze_matched_raise Cons.IH classified_Cons sum.case)
  next
    case (Inr t)
    then show ?thesis
      by (simp only: analyze_matched_return Cons.IH classified_Cons sum.case append_assoc append_Cons append_Nil)
  qed
qed

lemma analyze_matched_frame:
  "session_user (snd (analyze_matched env sid imgs acc w)) = session_user w
   \<and> session_aggregated_emotion (snd (analyze_matched env sid imgs acc w)) = session_aggregated_emotion w
   \<and> s3_objects (snd (analyze_matched env sid imgs acc w)) = s3_objects w
   \<and> background_tasks (snd (analyze_matched env sid imgs acc w)) = background_tasks w
   \<and> calls (snd (analyze_matched env sid imgs acc w)) = calls w @ loop_calls env imgs
   \<and> db_txns (snd (analyze_matched env sid imgs acc w)) = db_txns w + length (classified env imgs)
   \<and> uuids (snd (analyze_matched env sid imgs acc w)) = uuids w + length (classified env imgs)"
proof (induction imgs arbitrary: acc w)
  case Nil
  show ?case by (simp add: classified_def loop_calls_def)
next
  case (Cons img imgs)
  show ?case
  proof (cases "emotion_service env (c_image_path img)")
    case (Inl e)
    then have r: "raises env img" by (simp add: raises_def)
    show ?thesis
      unfolding analyze_matched_raise[OF Inl] classified_Cons Inl sum.case
      using Cons.IH[of acc "called (AnalyzeEmotion (c_image_path img)) w"] r
      by (simp add: called_simps loop_calls_def)
  next
    case (Inr t)
    then have r: "\<not> raises env img" by (simp add: raises_def)
    show ?thesis
      unfolding analyze_matched_return[OF Inr] classified_Cons Inr sum.case
      using r
      by (simp add: Cons.IH called_simps insert_emotion_log_frame loop_calls_def)
  qed
qed


lemma search_photos_candidates_error:
  "search_candidates env request w = (Inl e, w5) \<Longrightarrow>
     search_photos env request w = (Inl (http_error e), w5)"
  by (simp add: search_photos_def search_photos_body_def)

lemma search_photos_after_candidates:
  assumes "search_candidates env request w = (Inr found, w5)"
  shows "search_photos env request w =
     (let sid = rq_session_id request;
          results = classified env (slice_to (MAX_IMAGES_TO_PROCESS (settings env)) found);
          w6 = snd (analyze_matched env sid
                      (slice_to (MAX_IMAGES_TO_PROCESS (settings env)) found) [] w5);
          agg = projr (aggregate_emotions results);
          st = statement_of env (fst agg) (fst (snd agg));
          w7 = snd (insert_aggregated_emotion env sid (fst agg) (fst (snd agg)) (snd (snd agg)) st
                      (called (InsertAggregatedEmotion sid)
                         (called (AggregateEmotions (length results)) w6)))
      in (Inr \<lparr>rs_matched_count = int (length results), rs_matched_images = results,
                rs_aggregated_state = agg, rs_statement = st, rs_session_id = sid\<rparr>,
          (called (AddCleanupTask sid) w7)\<lparr>background_tasks := background_tasks w7 @ [sid]\<rparr>))"
proof -
  define results where
    "results = classified env (slice_to (MAX_IMAGES_TO_PROCESS (settings env)) found)"
  define w6 where
    "w6 = snd (analyze_matched env (rq_session_id request)
                 (slice_to (MAX_IMAGES_TO_PROCESS (settings env)) found) [] w5)"
  have am: "analyze_matched env (rq_session_id request)
              (slice_to (MAX_IMAGES_TO_PROCESS (settings env)) found) [] w5 = (results, w6)"
    using analyze_matched_results[of env "rq_session_id request"
        "slice_to (MAX_IMAGES_TO_PROCESS (settings env)) found" "[]" w5]
    by (simp add: results_def w6_def prod_eq_iff)
  obtain t where t: "aggregate_emotions results = Inr t"
    using aggregate_emotions_returns by blast
  obtain dm c d where tt: "t = (dm, c, d)" by (cases t) auto
  define w7 where "w7 = snd (insert_aggregated_emotion env (rq_session_id request) dm c d
      (statement_of env dm c)
      (called (InsertAggregatedEmotion (rq_session_id request))
         (called (AggregateEmotions (length results)) w6)))"
  have ia: "insert_aggregated_emotion env (rq_session_id request) dm c d
      (statement_of env dm c)
      (called (InsertAggregatedEmotion (rq_session_id request))
         (called (AggregateEmotions (length results)) w6)) = (Inr (), w7)"
    using insert_aggregated_emotion_returns[of env "rq_session_id request" dm c d]
    by (simp add: w7_def prod_eq_iff)
  have "search_photos env request w =
      (Inr \<lparr>rs_matched_count = int (length results), rs_matched_images = results,
             rs_aggregated_state = (dm, c, d), rs_statement = statement_of env dm c,
             rs_session_id = rq_session_id request\<rparr>,
       (called (AddCleanupTask (rq_session_id request)) w7)
         \<lparr>background_tasks := background_tasks w7 @ [rq_session_id request]\<rparr>)"
    by (simp add: search_photos_def search_photos_body_def assms am t tt ia)
  then show ?thesis
    by (simp add: Let_def results_def[symmetric] w6_def[symmetric] t tt w7_def[symmetric])
qed

section \<open>The classifier placeholder never raises\<close>

lemma max_key_mock: "max_key mock_emotion_dist = Inr ''happy''"
  by (simp add: max_key_def mock_emotion_dist_def)

lemma analyze_emotion_loaded:
  "load image_path = None \<Longrightarrow>
     analyze_emotion load image_path = Inr (''happy'', mock_emotion_dist, 45 / 100)"
  by (simp add: analyze_emotion_def max_key_mock dict_item_def) (simp add: mock_emotion_dist_def)

lemma analyze_emotion_failed:
  "load image_path = Some msg \<Longrightarrow> analyze_emotion load image_path = Inr (''neutral'', [], 0)"
  by (simp add: analyze_emotion_def)

text \<open>
  C10. \<open>analyze_emotion\<close> returns a triple for every image path, whatever the image loader
  does; when loading raises, the triple is \<open>('neutral', {}, 0.0)\<close>. With this function as
  the classifier of the route, no candidate is skipped, and a candidate whose image does not
  load enters \<open>emotion_results\<close> as a record labelled neutral.
\<close>

theorem analyze_emotion_never_raises:
  "(\<exists>label d confidence. analyze_emotion load image_path = Inr (label, d, confidence))
   \<and> (load image_path \<noteq> None \<longrightarrow> analyze_emotion load image_path = Inr (''neutral'', [], 0))
   \<and> (emotion_service env = analyze_emotion (image_open env) \<longrightarrow>
        \<not> raises env img
        \<and> (image_open env (c_image_path img) \<noteq> None \<longrightarrow>
             fst (analyze_matched env session_id [img] [] w)
               = [emotion_result_of img (''neutral'', [], 0)]))"
proof (intro conjI impI)
  show "\<exists>label d confidence. analyze_emotion load image_path = Inr (label, d, confidence)"
  proof (cases "load image_path")
    case None
    then show ?thesis by (blast intro: analyze_emotion_loaded)
  next
    case (Some msg)
    then show ?thesis by (blast intro: analyze_emotion_failed)
  qed
  show "analyze_emotion load image_path = Inr (''neutral'', [], 0)" if "load image_path \<noteq> None"
    using that by (auto simp: analyze_emotion_failed)
  assume e: "emotion_service env = analyze_emotion (image_open env)"
  show "\<not> raises env img"
    unfolding raises_def e
    by (cases "image_open env (c_image_path img)")
       (simp_all add: analyze_emotion_loaded analyze_emotion_failed)
  assume "image_open env (c_image_path img) \<noteq> None"
  then have "emotion_service env (c_image_path img) = Inr (''neutral'', [], 0)"
    unfolding e by (auto simp: analyze_emotion_failed)
  then show "fst (analyze_matched env session_id [img] [] w)
      = [emotion_result_of img (''neutral'', [], 0)]"
    unfolding analyze_matched_results by (simp add: classified_Cons) (simp add: classified_def)
qed

theorem analyze_emotion_never_raises_witness:
  "image_open missing_files_env (c_image_path image1) \<noteq> None
   \<and> analyze_emotion (image_open missing_files_env) (c_image_path image1)
       = Inr (''neutral'', [], 0)
   \<and> emotion_service missing_files_env = analyze_emotion (image_open missing_files_env)
   \<and> \<not> raises missing_files_env image1
   \<and> fst (analyze_matched missing_files_env ''s-1'' [image1] [] empty_world)
       = [emotion_result_of image1 (''neutral'', [], 0)]"
proof -
  have h1: "image_open missing_files_env (c_image_path image1) \<noteq> None"
    by (simp add: missing_files_env_def with_placeholders_def)
  have h2: "emotion_service missing_files_env = analyze_emotion (image_open missing_files_env)"
    by (simp add: missing_files_env_def with_placeholders_def)
  from analyze_emotion_never_raises[of "image_open missing_files_env" "c_image_path image1"
      missing_files_env image1 "''s-1''" empty_world] h1 h2
  show ?thesis by blast
qed

section \<open>Purging a session\<close>

lemma delete_session_returns: "fst (delete_session env session_id w) = Inr ()"
  by (simp add: delete_session_def Let_def split: option.splits)

lemma delete_session_failed:
  "db_error env (db_txns w) = Some msg \<Longrightarrow> tables (snd (delete_session env session_id w)) = tables w"
  by (simp add: delete_session_def Let_def tables_def)

lemma delete_session_committed:
  "db_error env (db_txns w) = None \<Longrightarrow> purged session_id (snd (delete_session env session_id w))"
  by (auto simp: delete_session_def Let_def purged_def)

lemma delete_session_purged:
  "purged session_id w \<Longrightarrow> tables (snd (delete_session env session_id w)) = tables w"
  by (auto simp: delete_session_def Let_def purged_def tables_def filter_id_conv split: option.splits)

lemma delete_session_txns: "db_txns (snd (delete_session env session_id w)) = Suc (db_txns w)"
  by (simp add: delete_session_def Let_def split: option.splits)

text \<open>
  C9. \<open>delete_session\<close> never raises. On a session that has no row left it leaves the
  three tables as they are, and after a \<open>delete_session\<close> that committed the session has
  no row left: a second run changes nothing. The two runs together leave the tables as the
  first run alone does, unless the first transaction failed and the second one committed.
\<close>

theorem delete_session_idempotent:
  "fst (delete_session env session_id w) = Inr ()
   \<and> (purged session_id w \<longrightarrow> tables (snd (delete_session env session_id w)) = tables w)
   \<and> (db_error env (db_txns w) = None \<longrightarrow>
        purged session_id (snd (delete_session env session_id w)))
   \<and> (db_error env (db_txns w) = None \<or> db_error env (Suc (db_txns w)) \<noteq> None \<longrightarrow>
        tables (snd (delete_session env session_id (snd (delete_session env session_id w))))
          = tables (snd (delete_session env session_id w)))"
proof (intro conjI impI)
  show "fst (delete_session env session_id w) = Inr ()" by (rule delete_session_returns)
  show "tables (snd (delete_session env session_id w)) = tables w" if "purged session_id w"
    using that by (rule delete_session_purged)
  show "purged session_id (snd (delete_session env session_id w))"
    if "db_error env (db_txns w) = None"
    using that by (rule delete_session_committed)
  assume "db_error env (db_txns w) = None \<or> db_error env (Suc (db_txns w)) \<noteq> None"
  then show "tables (snd (delete_session env session_id (snd (delete_session env session_id w))))
          = tables (snd (delete_session env session_id w))"
  proof
    assume "db_error env (db_txns w) = None"
    then show ?thesis by (intro delete_session_purged delete_session_committed)
  next
    assume "db_error env (Suc (db_txns w)) \<noteq> None"
    then obtain msg where "db_error env (db_txns (snd (delete_session env session_id w))) = Some msg"
      by (auto simp: delete_session_txns)
    then show ?thesis by (rule delete_session_failed)
  qed
qed


theorem delete_session_idempotent_witness:
  "db_error sample_env (db_txns searched_world) = None
   \<and> \<not> purged ''s-1'' searched_world
   \<and> purged ''s-1'' (snd (delete_session sample_env ''s-1'' searched_world))
   \<and> tables (snd (delete_session sample_env ''s-1''
                      (snd (delete_session sample_env ''s-1'' searched_world))))
       = tables (snd (delete_session sample_env ''s-1'' searched_world))"
proof -
  have h: "db_error sample_env (db_txns searched_world) = None"
    by (simp add: sample_env_def)
  have n: "\<not> purged ''s-1'' searched_world"
    by code_simp
  from delete_session_idempotent[of sample_env "''s-1''" searched_world] h n
  show ?thesis by blast
qed

section \<open>Steps 1 to 5\<close>

lemma insert_session_user_frame:
  "emotion_log (snd (insert_session_user env s u i a w)) = emotion_log w"
  "session_aggregated_emotion (snd (insert_session_user env s u i a w)) = session_aggregated_emotion w"
  "s3_objects (snd (insert_session_user env s u i a w)) = s3_objects w"
  "background_tasks (snd (insert_session_user env s u i a w)) = background_tasks w"
  "calls (snd (insert_session_user env s u i a w)) = calls w"
  "db_txns (snd (insert_session_user env s u i a w)) = Suc (db_txns w)"
  "uuids (snd (insert_session_user env s u i a w)) = uuids w"
  by (simp_all add: insert_session_user_def Let_def split: option.splits)

lemma insert_session_user_row:
  assumes "fst (insert_session_user env s u i a w) = Inr ()"
  shows "session_user (snd (insert_session_user env s u i a w)) =
     session_user w @
       [\<lparr>su_session_id = s, su_user_name = u, su_captured_image_base64 = i,
         su_captured_image_path = None, su_embedding = None, su_status = ''searching'',
         su_privacy_policy_agreed = str_of_bool a,
         su_timestamp = utcnow env (clock_reads w + 1),
         su_created_at = utcnow env (clock_reads w + 2),
         su_expires_at = utcnow env (clock_reads w)
                           + timedelta_hours (SESSION_EXPIRY_HOURS (settings env))\<rparr>]"
  using assms by (simp add: insert_session_user_def Let_def split: option.splits if_splits)

lemma insert_session_user_no_row:
  assumes "fst (insert_session_user env s u i a w) \<noteq> Inr ()"
  shows "session_user (snd (insert_session_user env s u i a w)) = session_user w"
  using assms by (simp add: insert_session_user_def Let_def split: option.splits if_splits)

lemma insert_session_user_commits:
  "fst (insert_session_user env s u i a w) = Inr () \<longleftrightarrow>
     db_error env (db_txns w) = None \<and> s \<notin> su_session_id ` set (session_user w)"
  by (simp add: insert_session_user_def Let_def split: option.splits)

lemma insert_session_user_flag:
  "fst (insert_session_user env s u i a w) = fst (insert_session_user env s u i a' w)"
  by (simp add: insert_session_user_def Let_def split: option.splits)

lemma upload_image_to_s3_frame:
  "session_user (snd (upload_image_to_s3 env i s w)) = session_user w"
  "emotion_log (snd (upload_image_to_s3 env i s w)) = emotion_log w"
  "session_aggregated_emotion (snd (upload_image_to_s3 env i s w)) = session_aggregated_emotion w"
  "background_tasks (snd (upload_image_to_s3 env i s w)) = background_tasks w"
  "calls (snd (upload_image_to_s3 env i s w)) = calls w"
  "db_txns (snd (upload_image_to_s3 env i s w)) = db_txns w"
  "uuids (snd (upload_image_to_s3 env i s w)) = uuids w"
  by (simp_all add: upload_image_to_s3_def Let_def split: sum.splits option.splits)

lemma upload_image_to_s3_result:
  "fst (upload_image_to_s3 env i s w) = fst (upload_image_to_s3 env i s w')"
  by (simp add: upload_image_to_s3_def Let_def split: sum.splits option.splits)

lemma save_session_and_image_cases:
  "save_session_and_image env request w =
     (if fst (insert_session_user env (rq_session_id request) (rq_user_name request)
                (rq_captured_image request) (rq_privacy_policy_agreed request)
                (called (InsertSessionUser (rq_session_id request)) w)) = Inr ()
      then upload_image_to_s3 env (rq_captured_image request) (rq_session_id request)
             (called (UploadImage (rq_session_id request))
                (snd (insert_session_user env (rq_session_id request) (rq_user_name request)
                        (rq_captured_image request) (rq_privacy_policy_agreed request)
                        (called (InsertSessionUser (rq_session_id request)) w))))
      else (Inl (projl (fst (insert_session_user env (rq_session_id request) (rq_user_name request)
                (rq_captured_image request) (rq_privacy_policy_agreed request)
                (called (InsertSessionUser (rq_session_id request)) w)))),
            snd (insert_session_user env (rq_session_id request) (rq_user_name request)
                   (rq_captured_image request) (rq_privacy_policy_agreed request)
                   (called (InsertSessionUser (rq_session_id request)) w))))"
  by (simp add: save_session_and_image_def split: prod.splits sum.splits)

lemma save_session_and_image_frame:
  "emotion_log (snd (save_session_and_image env request w)) = emotion_log w"
  "session_aggregated_emotion (snd (save_session_and_image env request w)) = session_aggregated_emotion w"
  "background_tasks (snd (save_session_and_image env request w)) = background_tasks w"
  "db_txns (snd (save_session_and_image env request w)) = Suc (db_txns w)"
  "uuids (snd (save_session_and_image env request w)) = uuids w"
  "session_user (snd (save_session_and_image env request w)) =
     session_user (snd (insert_session_user env (rq_session_id request) (rq_user_name request)
                (rq_captured_image request) (rq_privacy_policy_agreed request)
                (called (InsertSessionUser (rq_session_id request)) w)))"
  by (simp_all add: save_session_and_image_cases insert_session_user_frame
      upload_image_to_s3_frame called_simps)

lemma save_session_and_image_calls:
  "fst (save_session_and_image env request w) = Inr p \<Longrightarrow>
     calls (snd (save_session_and_image env request w)) =
       calls w @ [InsertSessionUser (rq_session_id request), UploadImage (rq_session_id request)]"
  by (simp add: save_session_and_image_cases insert_session_user_frame
      upload_image_to_s3_frame called_simps split: if_splits)

lemma save_session_and_image_first_call:
  "\<exists>rest. calls (snd (save_session_and_image env request w)) =
       calls w @ InsertSessionUser (rq_session_id request) # rest"
  by (simp add: save_session_and_image_cases insert_session_user_frame
      upload_image_to_s3_frame called_simps)


lemma search_candidates_save_error:
  "fst (save_session_and_image env request w) = Inl e \<Longrightarrow>
     search_candidates env request w = (Inl e, snd (save_session_and_image env request w))"
  by (cases "save_session_and_image env request w") (simp add: search_candidates_def)

lemma search_candidates_saved:
  "fst (save_session_and_image env request w) = Inr p \<Longrightarrow>
     search_candidates env request w =
       (case decode_base64 env (rq_captured_image request) of
          Inl e \<Rightarrow> (Inl e, snd (save_session_and_image env request w))
        | Inr image_bytes \<Rightarrow>
       (case detect_and_align_face env image_bytes of
          None \<Rightarrow>
            (Inl (HTTPException 400
                    ''No face detected in the image. Please try again with a clearer image.''),
             called DetectFace (snd (save_session_and_image env request w)))
        | Some aligned_face \<Rightarrow>
       (case extract_embedding env aligned_face of
          None \<Rightarrow>
            (Inl (Exception no_shape_message),
             called ExtractEmbedding (called DetectFace (snd (save_session_and_image env request w))))
        | Some embedding \<Rightarrow>
            (if similarity_index env embedding (MAX_IMAGES_TO_PROCESS (settings env))
                  (FACE_SIMILARITY_THRESHOLD (settings env)) = []
             then (Inl (HTTPException 404 ''No matching faces found in the database.''),
                   called GetMatchedImages (called ExtractEmbedding
                     (called DetectFace (snd (save_session_and_image env request w)))))
             else (Inr (similarity_index env embedding (MAX_IMAGES_TO_PROCESS (settings env))
                          (FACE_SIMILARITY_THRESHOLD (settings env))),
                   called GetMatchedImages (called ExtractEmbedding
                     (called DetectFace (snd (save_session_and_image env request w)))))))))"
  by (cases "save_session_and_image env request w")
     (simp add: search_candidates_def Let_def split: sum.splits option.splits)

lemma search_candidates_found:
  assumes "fst (search_candidates env request w) = Inr found"
  shows "found \<noteq> []"
    and "\<exists>p. fst (save_session_and_image env request w) = Inr p"
    and "snd (search_candidates env request w) =
           called GetMatchedImages (called ExtractEmbedding
             (called DetectFace (snd (save_session_and_image env request w))))"
proof -
  obtain p where p: "fst (save_session_and_image env request w) = Inr p"
    using assms by (cases "fst (save_session_and_image env request w)")
      (simp_all add: search_candidates_save_error)
  then show "\<exists>p. fst (save_session_and_image env request w) = Inr p" by blast
  show "found \<noteq> []"
    using assms unfolding search_candidates_saved[OF p]
    by (auto split: sum.splits option.splits if_splits)
  show "snd (search_candidates env request w) =
           called GetMatchedImages (called ExtractEmbedding
             (called DetectFace (snd (save_session_and_image env request w))))"
    using assms unfolding search_candidates_saved[OF p]
    by (auto split: sum.splits option.splits if_splits)
qed

lemma search_candidates_frame:
  "emotion_log (snd (search_candidates env request w)) = emotion_log w"
  "session_aggregated_emotion (snd (search_candidates env request w)) = session_aggregated_emotion w"
  "background_tasks (snd (search_candidates env request w)) = background_tasks w"
  "db_txns (snd (search_candidates env request w)) = Suc (db_txns w)"
  "uuids (snd (search_candidates env request w)) = uuids w"
  "session_user (snd (search_candidates env request w)) =
     session_user (snd (save_session_and_image env request w))"
proof -
  have "emotion_log (snd (search_candidates env request w)) = emotion_log w
    \<and> session_aggregated_emotion (snd (search_candidates env request w)) = session_aggregated_emotion w
    \<and> background_tasks (snd (search_candidates env request w)) = background_tasks w
    \<and> db_txns (snd (search_candidates env request w)) = Suc (db_txns w)
    \<and> uuids (snd (search_candidates env request w)) = uuids w
    \<and> session_user (snd (search_candidates env request w)) =
     session_user (snd (save_session_and_image env request w))"
  proof (cases "fst (save_session_and_image env request w)")
    case (Inl e)
    then show ?thesis
      by (simp add: search_candidates_save_error save_session_and_image_frame)
  next
    case (Inr p)
    show ?thesis
      unfolding search_candidates_saved[OF Inr]
      by (simp add: save_session_and_image_frame called_simps
          split: sum.splits option.splits)
  qed
  then show
    "emotion_log (snd (search_candidates env request w)) = emotion_log w"
    "session_aggregated_emotion (snd (search_candidates env request w)) = session_aggregated_emotion w"
    "background_tasks (snd (search_candidates env request w)) = background_tasks w"
    "db_txns (snd (search_candidates env request w)) = Suc (db_txns w)"
    "uuids (snd (search_candidates env request w)) = uuids w"
    "session_user (snd (search_candidates env request w)) =
       session_user (snd (save_session_and_image env request w))"
    by simp_all
qed

lemma search_candidates_calls:
  assumes "fst (search_candidates env request w) = Inr found"
  shows "calls (snd (search_candidates env request w)) =
     calls w @ [InsertSessionUser (rq_session_id request), UploadImage (rq_session_id request),
                DetectFace, ExtractEmbedding, GetMatchedImages]"
proof -
  obtain p where "fst (save_session_and_image env request w) = Inr p"
    using search_candidates_found(2)[OF assms] by blast
  then show ?thesis
    unfolding search_candidates_found(3)[OF assms]
    by (simp add: called_simps save_session_and_image_calls)
qed

section \<open>The route as a whole\<close>

lemma search_photos_error:
  assumes "fst (search_candidates env request w) = Inl e"
  shows "search_photos env request w = (Inl (http_error e), snd (search_candidates env request w))"
  using assms search_photos_candidates_error[of env request w e "snd (search_candidates env request w)"]
  by (simp add: prod_eq_iff)

lemma search_photos_found:
  assumes "fst (search_candidates env request w) = Inr found"
  shows "search_photos env request w =
     (let sid = rq_session_id request;
          results = classified env (slice_to (MAX_IMAGES_TO_PROCESS (settings env)) found);
          w6 = snd (analyze_matched env sid
                      (slice_to (MAX_IMAGES_TO_PROCESS (settings env)) found) []
                      (snd (search_candidates env request w)));
          agg = projr (aggregate_emotions results);
          st = statement_of env (fst agg) (fst (snd agg));
          w7 = snd (insert_aggregated_emotion env sid (fst agg) (fst (snd agg)) (snd (snd agg)) st
                      (called (InsertAggregatedEmotion sid)
                         (called (AggregateEmotions (length results)) w6)))
      in (Inr \<lparr>rs_matched_count = int (length results), rs_matched_images = results,
                rs_aggregated_state = agg, rs_statement = st, rs_session_id = sid\<rparr>,
          (called (AddCleanupTask sid) w7)\<lparr>background_tasks := background_tasks w7 @ [sid]\<rparr>))"
  using assms search_photos_after_candidates[of env request w found "snd (search_candidates env request w)"]
  by (simp add: prod_eq_iff)

lemma search_photos_response:
  assumes "fst (search_candidates env request w) = Inr found"
  shows "fst (search_photos env request w) =
     Inr \<lparr>rs_matched_count =
             int (length (classified env (slice_to (MAX_IMAGES_TO_PROCESS (settings env)) found))),
           rs_matched_images = classified env (slice_to (MAX_IMAGES_TO_PROCESS (settings env)) found),
           rs_aggregated_state =
             projr (aggregate_emotions
                      (classified env (slice_to (MAX_IMAGES_TO_PROCESS (settings env)) found))),
           rs_statement =
             statement_of env
               (fst (projr (aggregate_emotions
                      (classified env (slice_to (MAX_IMAGES_TO_PROCESS (settings env)) found)))))
               (fst (snd (projr (aggregate_emotions
                      (classified env (slice_to (MAX_IMAGES_TO_PROCESS (settings env)) found)))))),
           rs_session_id = rq_session_id request\<rparr>"
  by (simp add: search_photos_found[OF assms] Let_def)


lemma search_photos_calls:
  assumes "fst (search_candidates env request w) = Inr found"
  shows "calls (snd (search_photos env request w)) =
     calls w @ [InsertSessionUser (rq_session_id request), UploadImage (rq_session_id request),
                DetectFace, ExtractEmbedding, GetMatchedImages]
       @ loop_calls env (slice_to (MAX_IMAGES_TO_PROCESS (settings env)) found)
       @ [AggregateEmotions
            (length (classified env (slice_to (MAX_IMAGES_TO_PROCESS (settings env)) found))),
          InsertAggregatedEmotion (rq_session_id request),
          AddCleanupTask (rq_session_id request)]"
  by (simp add: search_photos_found[OF assms] Let_def called_simps called_def
      insert_aggregated_emotion_frame analyze_matched_frame search_candidates_calls[OF assms])

lemma search_photos_session_user:
  "session_user (snd (search_photos env request w)) =
     session_user (snd (insert_session_user env (rq_session_id request) (rq_user_name request)
                (rq_captured_image request) (rq_privacy_policy_agreed request)
                (called (InsertSessionUser (rq_session_id request)) w)))"
proof (cases "fst (search_candidates env request w)")
  case (Inl e)
  then show ?thesis
    by (simp add: search_photos_error search_candidates_frame save_session_and_image_frame)
next
  case (Inr found)
  then show ?thesis
    by (simp add: search_photos_found Let_def called_simps called_def
      insert_aggregated_emotion_frame analyze_matched_frame search_candidates_frame
      save_session_and_image_frame)
qed

lemma emotion_service_unused:
  "insert_session_user (env\<lparr>emotion_service := f\<rparr>) = insert_session_user env"
  "upload_image_to_s3 (env\<lparr>emotion_service := f\<rparr>) = upload_image_to_s3 env"
  "decode_base64 (env\<lparr>emotion_service := f\<rparr>) = decode_base64 env"
  "detect_and_align_face (env\<lparr>emotion_service := f\<rparr>) = detect_and_align_face env"
  "extract_embedding (env\<lparr>emotion_service := f\<rparr>) = extract_embedding env"
  by (simp_all add: fun_eq_iff insert_session_user_def upload_image_to_s3_def decode_base64_def
      detect_and_align_face_def extract_embedding_def
      cong: option.case_cong sum.case_cong prod.case_cong)

lemma search_candidates_emotion_service:
  "search_candidates (env\<lparr>emotion_service := f\<rparr>) request w = search_candidates env request w"
  by (simp add: search_candidates_def save_session_and_image_def emotion_service_unused
      cong: option.case_cong sum.case_cong prod.case_cong)

section \<open>No match\<close>

lemma analyze_call_in_loop:
  "img \<in> set imgs \<Longrightarrow> AnalyzeEmotion (c_image_path img) \<in> set (loop_calls env imgs)"
  by (induction imgs) (auto simp: loop_calls_def)

text \<open>
  C6, as the code has it. When the session is saved, the image uploaded, the face detected
  and the embedding extracted, \<open>search_photos\<close> raises HTTP 404, "No matching faces found
  in the database.", exactly when the similarity index returns an empty list. Then the calls
  made are the five of steps 1 to 5 and no other: the classifier is not called, no emotion
  row is written, and the outcome is the same whatever the classifier is. The route itself
  compares no score with the threshold, which it only passes to the index: when the index
  returns a non-empty list the search succeeds and the classifier is called on every
  candidate processed, whatever its score.
\<close>

theorem no_match_is_404:
  assumes "fst (save_session_and_image env request w) = Inr image_path"
    and "decode_base64 env (rq_captured_image request) = Inr image_bytes"
    and "detect_and_align_face env image_bytes = Some aligned_face"
    and "extract_embedding env aligned_face = Some embedding"
  shows "(similarity_index env embedding (MAX_IMAGES_TO_PROCESS (settings env))
            (FACE_SIMILARITY_THRESHOLD (settings env)) = [] \<longrightarrow>
          fst (search_photos env request w)
            = Inl (HTTPException 404 ''No matching faces found in the database.'')
          \<and> calls (snd (search_photos env request w))
              = calls w @ [InsertSessionUser (rq_session_id request),
                           UploadImage (rq_session_id request),
                           DetectFace, ExtractEmbedding, GetMatchedImages]
          \<and> emotion_log (snd (search_photos env request w)) = emotion_log w
          \<and> search_photos (env\<lparr>emotion_service := classifier\<rparr>) request w
              = search_photos env request w)
       \<and> (similarity_index env embedding (MAX_IMAGES_TO_PROCESS (settings env))
            (FACE_SIMILARITY_THRESHOLD (settings env)) \<noteq> [] \<longrightarrow>
          \<not> isl (fst (search_photos env request w))
          \<and> (\<forall>img \<in> set (slice_to (MAX_IMAGES_TO_PROCESS (settings env))
                             (similarity_index env embedding (MAX_IMAGES_TO_PROCESS (settings env))
                                (FACE_SIMILARITY_THRESHOLD (settings env)))).
                AnalyzeEmotion (c_image_path img) \<in> set (calls (snd (search_photos env request w)))))"
proof (intro conjI impI)
  assume z: "similarity_index env embedding (MAX_IMAGES_TO_PROCESS (settings env))
            (FACE_SIMILARITY_THRESHOLD (settings env)) = []"
  have c: "search_candidates env request w =
      (Inl (HTTPException 404 ''No matching faces found in the database.''),
       called GetMatchedImages (called ExtractEmbedding
         (called DetectFace (snd (save_session_and_image env request w)))))"
    by (simp add: search_candidates_saved[OF assms(1)] assms z)
  then have e: "fst (search_candidates env request w)
      = Inl (HTTPException 404 ''No matching faces found in the database.'')"
    by simp
  have e': "fst (search_candidates (env\<lparr>emotion_service := classifier\<rparr>) request w)
      = Inl (HTTPException 404 ''No matching faces found in the database.'')"
    using e by (simp only: search_candidates_emotion_service)
  have p: "search_photos env request w =
      (Inl (HTTPException 404 ''No matching faces found in the database.''),
       called GetMatchedImages (called ExtractEmbedding
         (called DetectFace (snd (save_session_and_image env request w)))))"
    unfolding search_photos_error[OF e] c by (simp add: http_error_def)
  show "fst (search_photos env request w)
            = Inl (HTTPException 404 ''No matching faces found in the database.'')"
    by (simp add: p)
  show "calls (snd (search_photos env request w))
              = calls w @ [InsertSessionUser (rq_session_id request),
                           UploadImage (rq_session_id request),
                           DetectFace, ExtractEmbedding, GetMatchedImages]"
    by (simp add: p called_simps save_session_and_image_calls[OF assms(1)])
  show "emotion_log (snd (search_photos env request w)) = emotion_log w"
    by (simp add: p called_simps save_session_and_image_frame)
  show "search_photos (env\<lparr>emotion_service := classifier\<rparr>) request w
              = search_photos env request w"
    unfolding search_photos_error[OF e] search_photos_error[OF e']
    by (simp only: search_candidates_emotion_service)
next
  assume nz: "similarity_index env embedding (MAX_IMAGES_TO_PROCESS (settings env))
            (FACE_SIMILARITY_THRESHOLD (settings env)) \<noteq> []"
  have f: "fst (search_candidates env request w)
      = Inr (similarity_index env embedding (MAX_IMAGES_TO_PROCESS (settings env))
            (FACE_SIMILARITY_THRESHOLD (settings env)))"
    by (simp add: search_candidates_saved[OF assms(1)] assms nz)
  show "\<not> isl (fst (search_photos env request w))"
    by (simp add: search_photos_response[OF f])
  show "\<forall>img \<in> set (slice_to (MAX_IMAGES_TO_PROCESS (settings env))
                             (similarity_index env embedding (MAX_IMAGES_TO_PROCESS (settings env))
                                (FACE_SIMILARITY_THRESHOLD (settings env)))).
                AnalyzeEmotion (c_image_path img) \<in> set (calls (snd (search_photos env request w)))"
    by (simp add: search_photos_calls[OF f] analyze_call_in_loop)
qed

lemma sample_save:
  "db_error env = (\<lambda>k. None) \<Longrightarrow> b64decode env = (\<lambda>s. Inr [0xFF, 0xD8]) \<Longrightarrow>
   put_object_error env = (\<lambda>key body. None) \<Longrightarrow> settings env = default_settings \<Longrightarrow>
   fst (save_session_and_image env sample_request empty_world)
     = Inr ''s3://face-emotion-bucket/sessions/s-1/captured.jpg''"
  by (simp add: save_session_and_image_def insert_session_user_def upload_image_to_s3_def
      sample_request_def empty_world_def called_def default_settings_def Let_def)

lemma sample_decode:
  "b64decode env = (\<lambda>s. Inr [0xFF, 0xD8]) \<Longrightarrow>
   decode_base64 env (rq_captured_image sample_request) = Inr [0xFF, 0xD8]"
  by (simp add: decode_base64_def)

theorem no_match_is_404_witness:
  "similarity_index no_match_env 2 (MAX_IMAGES_TO_PROCESS (settings no_match_env))
     (FACE_SIMILARITY_THRESHOLD (settings no_match_env)) = []
   \<and> fst (search_photos no_match_env sample_request empty_world)
       = Inl (HTTPException 404 ''No matching faces found in the database.'')
   \<and> calls (snd (search_photos no_match_env sample_request empty_world))
       = [InsertSessionUser ''s-1'', UploadImage ''s-1'', DetectFace, ExtractEmbedding,
          GetMatchedImages]"
proof -
  have h1: "fst (save_session_and_image no_match_env sample_request empty_world)
      = Inr ''s3://face-emotion-bucket/sessions/s-1/captured.jpg''"
    by (rule sample_save) (simp_all add: no_match_env_def sample_env_def)
  have h2: "decode_base64 no_match_env (rq_captured_image sample_request) = Inr [0xFF, 0xD8]"
    by (rule sample_decode) (simp add: no_match_env_def sample_env_def)
  have h3: "detect_and_align_face no_match_env [0xFF, 0xD8] = Some 1"
    by (simp add: detect_and_align_face_def no_match_env_def sample_env_def)
  have h4: "extract_embedding no_match_env 1 = Some 2"
    by (simp add: extract_embedding_def no_match_env_def sample_env_def)
  have h5: "similarity_index no_match_env 2 (MAX_IMAGES_TO_PROCESS (settings no_match_env))
     (FACE_SIMILARITY_THRESHOLD (settings no_match_env)) = []"
    by (simp add: no_match_env_def sample_env_def)
  from no_match_is_404[OF h1 h2 h3 h4] h5
  have "fst (search_photos no_match_env sample_request empty_world)
       = Inl (HTTPException 404 ''No matching faces found in the database.'')
     \<and> calls (snd (search_photos no_match_env sample_request empty_world))
       = calls empty_world @ [InsertSessionUser (rq_session_id sample_request),
                           UploadImage (rq_session_id sample_request),
                           DetectFace, ExtractEmbedding, GetMatchedImages]"
    by blast
  with h5 show ?thesis
    by (simp add: sample_request_def empty_world_def)
qed

text \<open>
  C6 as stated speaks of zero candidates at or above the threshold. With the source's
  placeholders and the threshold set to 0.99, the one image returned has score 0.95: no
  candidate reaches the threshold, yet no 404 is raised and the image is classified.
\<close>

theorem below_threshold_is_classified_counterexample:
  "FACE_SIMILARITY_THRESHOLD (settings strict_threshold_env) = 99 / 100
   \<and> similarity_index strict_threshold_env 2
        (MAX_IMAGES_TO_PROCESS (settings strict_threshold_env))
        (FACE_SIMILARITY_THRESHOLD (settings strict_threshold_env)) = [image1]
   \<and> c_similarity_score image1 = 95 / 100
   \<and> filter (\<lambda>c. FACE_SIMILARITY_THRESHOLD (settings strict_threshold_env) \<le> c_similarity_score c)
        (similarity_index strict_threshold_env 2
           (MAX_IMAGES_TO_PROCESS (settings strict_threshold_env))
           (FACE_SIMILARITY_THRESHOLD (settings strict_threshold_env))) = []
   \<and> \<not> isl (fst (search_photos strict_threshold_env sample_request empty_world))
   \<and> rs_matched_count (projr (fst (search_photos strict_threshold_env sample_request empty_world)))
       = 1
   \<and> calls (snd (search_photos strict_threshold_env sample_request empty_world))
       = [InsertSessionUser ''s-1'', UploadImage ''s-1'', DetectFace, ExtractEmbedding,
          GetMatchedImages, AnalyzeEmotion ''/path/to/image1.jpg'', InsertEmotionLog ''1'',
          AggregateEmotions 1, InsertAggregatedEmotion ''s-1'', AddCleanupTask ''s-1'']"
  by code_simp

section \<open>An image that does not decode\<close>

lemma detect_and_align_face_undecodable:
  assumes "\<forall>decoded. imdecode env image_bytes \<noteq> Inr (Some decoded)"
  shows "detect_and_align_face env image_bytes = None"
proof (cases "imdecode env image_bytes")
  case (Inl msg)
  then show ?thesis by (simp add: detect_and_align_face_def)
next
  case (Inr r)
  with assms have "r = None" by (cases r) auto
  with Inr show ?thesis by (simp add: detect_and_align_face_def)
qed

lemma detect_and_align_face_no_face:
  "imdecode env image_bytes = Inr (Some decoded) \<Longrightarrow> detect_largest_face env decoded = Inr None \<Longrightarrow>
     detect_and_align_face env image_bytes = None"
  by (simp add: detect_and_align_face_def)

text \<open>
  C5, as the code has it. When the session is saved, the image uploaded and the base64 text
  decoded, image bytes that do not decode to a bitmap make \<open>search_photos\<close> raise HTTP 400
  with the detail "No face detected in the image. Please try again with a clearer image.":
  the very exception raised for a decodable image in which no face is found.
  \<open>detect_and_align_face\<close> returns None in both cases and the route cannot tell them apart.
\<close>

theorem undecodable_image_is_no_face:
  assumes "fst (save_session_and_image env request w) = Inr image_path"
    and "decode_base64 env (rq_captured_image request) = Inr image_bytes"
    and "(\<forall>decoded. imdecode env image_bytes \<noteq> Inr (Some decoded))
         \<or> (\<exists>decoded. imdecode env image_bytes = Inr (Some decoded)
                \<and> detect_largest_face env decoded = Inr None)"
  shows "fst (search_photos env request w)
           = Inl (HTTPException 400
                    ''No face detected in the image. Please try again with a clearer image.'')"
proof -
  from assms(3) have n: "detect_and_align_face env image_bytes = None"
  proof
    assume "\<forall>decoded. imdecode env image_bytes \<noteq> Inr (Some decoded)"
    then show ?thesis by (rule detect_and_align_face_undecodable)
  next
    assume "\<exists>decoded. imdecode env image_bytes = Inr (Some decoded)
                \<and> detect_largest_face env decoded = Inr None"
    then obtain decoded where "imdecode env image_bytes = Inr (Some decoded)"
      "detect_largest_face env decoded = Inr None" by blast
    then show ?thesis by (rule detect_and_align_face_no_face)
  qed
  have "fst (search_candidates env request w)
      = Inl (HTTPException 400
               ''No face detected in the image. Please try again with a clearer image.'')"
    by (simp add: search_candidates_saved[OF assms(1)] assms(2) n)
  then show ?thesis
    by (simp add: search_photos_error http_error_def)
qed

theorem undecodable_image_is_no_face_witness:
  "imdecode undecodable_env [0xFF, 0xD8] = Inr None
   \<and> fst (search_photos undecodable_env sample_request empty_world)
       = Inl (HTTPException 400
                ''No face detected in the image. Please try again with a clearer image.'')"
proof -
  have h1: "fst (save_session_and_image undecodable_env sample_request empty_world)
      = Inr ''s3://face-emotion-bucket/sessions/s-1/captured.jpg''"
    by (rule sample_save) (simp_all add: undecodable_env_def sample_env_def)
  have h2: "decode_base64 undecodable_env (rq_captured_image sample_request) = Inr [0xFF, 0xD8]"
    by (rule sample_decode) (simp add: undecodable_env_def sample_env_def)
  have h3: "imdecode undecodable_env [0xFF, 0xD8] = Inr None"
    by (simp add: undecodable_env_def sample_env_def)
  then have h4: "(\<forall>decoded. imdecode undecodable_env [0xFF, 0xD8] \<noteq> Inr (Some decoded))
         \<or> (\<exists>decoded. imdecode undecodable_env [0xFF, 0xD8] = Inr (Some decoded)
                \<and> detect_largest_face undecodable_env decoded = Inr None)"
    by simp
  from undecodable_image_is_no_face[OF h1 h2 h4] h3 show ?thesis by simp
qed

text \<open>
  C5 as stated asks for an InvalidImage error distinct from NoFaceDetected. On the sample
  request, an environment whose image does not decode and one whose image decodes and
  shows no face get the same exception.
\<close>

theorem invalid_image_not_distinct_counterexample:
  "decode_base64 undecodable_env (rq_captured_image sample_request) = Inr [0xFF, 0xD8]
   \<and> imdecode undecodable_env [0xFF, 0xD8] = Inr None
   \<and> fst (search_photos undecodable_env sample_request empty_world)
       = Inl (HTTPException 400
                ''No face detected in the image. Please try again with a clearer image.'')
   \<and> imdecode no_face_env [0xFF, 0xD8] = Inr (Some 0)
   \<and> detect_largest_face no_face_env 0 = Inr None
   \<and> fst (search_photos no_face_env sample_request empty_world)
       = fst (search_photos undecodable_env sample_request empty_world)"
proof -
  have s: "fst (save_session_and_image undecodable_env sample_request empty_world)
      = Inr ''s3://face-emotion-bucket/sessions/s-1/captured.jpg''"
    by (rule sample_save) (simp_all add: undecodable_env_def sample_env_def)
  have d: "decode_base64 undecodable_env (rq_captured_image sample_request) = Inr [0xFF, 0xD8]"
    by (rule sample_decode) (simp add: undecodable_env_def sample_env_def)
  have u: "detect_and_align_face undecodable_env [0xFF, 0xD8] = None"
    by (simp add: detect_and_align_face_def undecodable_env_def sample_env_def)
  have cu: "fst (search_candidates undecodable_env sample_request empty_world)
      = Inl (HTTPException 400
               ''No face detected in the image. Please try again with a clearer image.'')"
    by (simp add: search_candidates_saved[OF s] d u)
  have s': "fst (save_session_and_image no_face_env sample_request empty_world)
      = Inr ''s3://face-emotion-bucket/sessions/s-1/captured.jpg''"
    by (rule sample_save) (simp_all add: no_face_env_def sample_env_def)
  have d': "decode_base64 no_face_env (rq_captured_image sample_request) = Inr [0xFF, 0xD8]"
    by (rule sample_decode) (simp add: no_face_env_def sample_env_def)
  have n: "detect_and_align_face no_face_env [0xFF, 0xD8] = None"
    by (simp add: detect_and_align_face_def no_face_env_def sample_env_def)
  have cn: "fst (search_candidates no_face_env sample_request empty_world)
      = Inl (HTTPException 400
               ''No face detected in the image. Please try again with a clearer image.'')"
    by (simp add: search_candidates_saved[OF s'] d' n)
  show ?thesis
    by (simp add: d search_photos_error[OF cu] search_photos_error[OF cn] http_error_def)
       (simp add: undecodable_env_def no_face_env_def sample_env_def)
qed

section \<open>Partial failure of the classifier\<close>






lemma sample_candidates:
  "fst (search_candidates sample_env sample_request empty_world) = Inr [image1, image2]"
proof -
  have s: "fst (save_session_and_image sample_env sample_request empty_world)
      = Inr ''s3://face-emotion-bucket/sessions/s-1/captured.jpg''"
    by (rule sample_save) (simp_all add: sample_env_def)
  have d: "decode_base64 sample_env (rq_captured_image sample_request) = Inr [0xFF, 0xD8]"
    by (rule sample_decode) (simp add: sample_env_def)
  show ?thesis
    unfolding search_candidates_saved[OF s] d
    by (simp add: detect_and_align_face_def extract_embedding_def sample_env_def)
qed





section \<open>The expiry of a session\<close>

text \<open>
  C8, as the code has it. \<open>insert_session_user\<close> reads the clock at \<open>T\<close> before it builds
  the row, and the row it stores has \<open>expires_at = T + timedelta(hours=SESSION_EXPIRY_HOURS)\<close>,
  T plus 24 hours with the configured default. The stored creation timestamp \<open>created_at\<close>
  is a column default, a later reading of the clock: \<open>expires_at\<close> is \<open>created_at\<close> plus the
  retention window minus the time between the two readings, so it equals \<open>created_at\<close> plus
  the window only when the clock did not move, and never exceeds it when the clock does not
  run backwards. When the insert fails no row is added, and a search adds to the table
  exactly what its one call of \<open>insert_session_user\<close> adds.
\<close>

theorem session_expiry:
  "(fst (insert_session_user env session_id user_name captured_image_base64 agreed w) = Inr () \<longrightarrow>
      (\<exists>user.
         session_user (snd (insert_session_user env session_id user_name captured_image_base64
                              agreed w))
           = session_user w @ [user]
         \<and> su_session_id user = session_id
         \<and> su_expires_at user
             = utcnow env (clock_reads w) + timedelta_hours (SESSION_EXPIRY_HOURS (settings env))
         \<and> (SESSION_EXPIRY_HOURS (settings env) = 24 \<longrightarrow>
               su_expires_at user = utcnow env (clock_reads w) + 24 * 60 * 60 * 1000000)
         \<and> su_created_at user = utcnow env (clock_reads w + 2)
         \<and> su_expires_at user
             = su_created_at user + timedelta_hours (SESSION_EXPIRY_HOURS (settings env))
               - (utcnow env (clock_reads w + 2) - utcnow env (clock_reads w))
         \<and> (su_expires_at user
               = su_created_at user + timedelta_hours (SESSION_EXPIRY_HOURS (settings env))
              \<longleftrightarrow> utcnow env (clock_reads w + 2) = utcnow env (clock_reads w))
         \<and> (utcnow env (clock_reads w) \<le> utcnow env (clock_reads w + 2) \<longrightarrow>
               su_expires_at user
                 \<le> su_created_at user + timedelta_hours (SESSION_EXPIRY_HOURS (settings env)))))
   \<and> (fst (insert_session_user env session_id user_name captured_image_base64 agreed w) \<noteq> Inr () \<longrightarrow>
        session_user (snd (insert_session_user env session_id user_name captured_image_base64
                             agreed w))
          = session_user w)
   \<and> session_user (snd (search_photos env request w))
       = session_user (snd (insert_session_user env (rq_session_id request) (rq_user_name request)
                              (rq_captured_image request) (rq_privacy_policy_agreed request)
                              (called (InsertSessionUser (rq_session_id request)) w)))
   \<and> SESSION_EXPIRY_HOURS default_settings = 24"
proof (intro conjI impI)
  assume ok: "fst (insert_session_user env session_id user_name captured_image_base64 agreed w) = Inr ()"
  show "\<exists>user.
         session_user (snd (insert_session_user env session_id user_name captured_image_base64
                              agreed w))
           = session_user w @ [user]
         \<and> su_session_id user = session_id
         \<and> su_expires_at user
             = utcnow env (clock_reads w) + timedelta_hours (SESSION_EXPIRY_HOURS (settings env))
         \<and> (SESSION_EXPIRY_HOURS (settings env) = 24 \<longrightarrow>
               su_expires_at user = utcnow env (clock_reads w) + 24 * 60 * 60 * 1000000)
         \<and> su_created_at user = utcnow env (clock_reads w + 2)
         \<and> su_expires_at user
             = su_created_at user + timedelta_hours (SESSION_EXPIRY_HOURS (settings env))
               - (utcnow env (clock_reads w + 2) - utcnow env (clock_reads w))
         \<and> (su_expires_at user
               = su_created_at user + timedelta_hours (SESSION_EXPIRY_HOURS (settings env))
              \<longleftrightarrow> utcnow env (clock_reads w + 2) = utcnow env (clock_reads w))
         \<and> (utcnow env (clock_reads w) \<le> utcnow env (clock_reads w + 2) \<longrightarrow>
               su_expires_at user
                 \<le> su_created_at user + timedelta_hours (SESSION_EXPIRY_HOURS (settings env)))"
    unfolding insert_session_user_row[OF ok]
    by (auto simp: timedelta_hours_def)
next
  assume "fst (insert_session_user env session_id user_name captured_image_base64 agreed w) \<noteq> Inr ()"
  then show "session_user (snd (insert_session_user env session_id user_name
      captured_image_base64 agreed w)) = session_user w"
    by (rule insert_session_user_no_row)
next
  show "session_user (snd (search_photos env request w))
       = session_user (snd (insert_session_user env (rq_session_id request) (rq_user_name request)
                              (rq_captured_image request) (rq_privacy_policy_agreed request)
                              (called (InsertSessionUser (rq_session_id request)) w)))"
    by (rule search_photos_session_user)
next
  show "SESSION_EXPIRY_HOURS default_settings = 24"
    by (simp add: default_settings_def)
qed

theorem session_expiry_witness:
  "fst (insert_session_user sample_env ''s-1'' ''Kabir'' ''/9j/4AAQ'' True empty_world) = Inr ()
   \<and> SESSION_EXPIRY_HOURS (settings sample_env) = 24
   \<and> utcnow sample_env (clock_reads empty_world) = 1700000000000000
   \<and> (\<exists>user.
         session_user (snd (insert_session_user sample_env ''s-1'' ''Kabir'' ''/9j/4AAQ'' True
                              empty_world))
           = session_user empty_world @ [user]
         \<and> su_expires_at user = 1700000000000000 + 24 * 60 * 60 * 1000000
         \<and> su_created_at user = utcnow sample_env (clock_reads empty_world + 2))"
proof -
  have h1: "fst (insert_session_user sample_env ''s-1'' ''Kabir'' ''/9j/4AAQ'' True empty_world)
      = Inr ()"
    by (simp add: insert_session_user_commits sample_env_def empty_world_def)
  have h2: "SESSION_EXPIRY_HOURS (settings sample_env) = 24"
    by (simp add: sample_env_def default_settings_def)
  have h3: "utcnow sample_env (clock_reads empty_world) = 1700000000000000"
    by (simp add: sample_env_def empty_world_def)
  from session_expiry[of sample_env "''s-1''" "''Kabir''" "''/9j/4AAQ''" True empty_world] h1 h2
  have "\<exists>user.
         session_user (snd (insert_session_user sample_env ''s-1'' ''Kabir'' ''/9j/4AAQ'' True
                              empty_world))
           = session_user empty_world @ [user]
         \<and> su_expires_at user
             = utcnow sample_env (clock_reads empty_world) + 24 * 60 * 60 * 1000000
         \<and> su_created_at user = utcnow sample_env (clock_reads empty_world + 2)"
    by blast
  then show ?thesis unfolding h3 using h1 h2 h3 by blast
qed

text \<open>
  C8 as stated makes the stored expiry the stored creation timestamp plus 24 hours exactly.
  In the row the sample search stores, with a clock that advances by one microsecond per
  reading, \<open>expires_at\<close> is \<open>created_at\<close> plus 24 hours minus two microseconds.
\<close>

theorem expiry_is_not_created_at_plus_24h_counterexample:
  "\<not> isl (fst (search_photos sample_env sample_request empty_world))
   \<and> SESSION_EXPIRY_HOURS (settings sample_env) = 24
   \<and> map (\<lambda>u. (su_session_id u, su_created_at u, su_expires_at u))
        (session_user (snd (search_photos sample_env sample_request empty_world)))
       = [(''s-1'', 1700000000000002, 1700086400000000)]
   \<and> (1700086400000000 :: int) \<noteq> 1700000000000002 + timedelta_hours 24
   \<and> (1700086400000000 :: int) = 1700000000000002 + timedelta_hours 24 - 2"
  by code_simp

section \<open>Every classification fails\<close>

lemma classified_all_raise:
  "\<forall>img \<in> set imgs. raises env img \<Longrightarrow> classified env imgs = []"
  by (simp add: classified_def)

lemma insert_aggregated_emotion_row:
  assumes "db_error env (db_txns w) = None"
    and "uuid4 env (uuids w) \<notin> ag_aggregation_id ` set (session_aggregated_emotion w)"
    and "s \<notin> ag_session_id ` set (session_aggregated_emotion w)"
  shows "session_aggregated_emotion (snd (insert_aggregated_emotion env s dm c d st w)) =
     session_aggregated_emotion w @
       [\<lparr>ag_aggregation_id = uuid4 env (uuids w), ag_session_id = s, ag_dominant_emotion = dm,
         ag_emotion_confidence = c, ag_emotion_distribution = d, ag_statement = st,
         ag_created_at = utcnow env (clock_reads w)\<rparr>]"
  using assms by (simp add: insert_aggregated_emotion_def Let_def)

lemma search_photos_aggregated_table:
  assumes "fst (search_candidates env request w) = Inr found"
  shows "session_aggregated_emotion (snd (search_photos env request w)) =
     session_aggregated_emotion
       (snd (insert_aggregated_emotion env (rq_session_id request)
          (fst (projr (aggregate_emotions
             (classified env (slice_to (MAX_IMAGES_TO_PROCESS (settings env)) found)))))
          (fst (snd (projr (aggregate_emotions
             (classified env (slice_to (MAX_IMAGES_TO_PROCESS (settings env)) found))))))
          (snd (snd (projr (aggregate_emotions
             (classified env (slice_to (MAX_IMAGES_TO_PROCESS (settings env)) found))))))
          (statement_of env
             (fst (projr (aggregate_emotions
                (classified env (slice_to (MAX_IMAGES_TO_PROCESS (settings env)) found)))))
             (fst (snd (projr (aggregate_emotions
                (classified env (slice_to (MAX_IMAGES_TO_PROCESS (settings env)) found)))))))
          (called (InsertAggregatedEmotion (rq_session_id request))
             (called (AggregateEmotions
                (length (classified env (slice_to (MAX_IMAGES_TO_PROCESS (settings env)) found))))
                (snd (analyze_matched env (rq_session_id request)
                        (slice_to (MAX_IMAGES_TO_PROCESS (settings env)) found) []
                        (snd (search_candidates env request w))))))))"
  by (simp add: search_photos_found[OF assms] Let_def called_def)

lemma all_raise_aggregated_row:
  assumes "fst (search_candidates env request w) = Inr found"
    and "\<forall>img \<in> set (slice_to (MAX_IMAGES_TO_PROCESS (settings env)) found). raises env img"
    and "db_error env (Suc (db_txns w)) = None"
    and "uuid4 env (uuids w) \<notin> ag_aggregation_id ` set (session_aggregated_emotion w)"
    and "rq_session_id request \<notin> ag_session_id ` set (session_aggregated_emotion w)"
  shows "\<exists>row. session_aggregated_emotion (snd (search_photos env request w))
                    = session_aggregated_emotion w @ [row]
                \<and> ag_session_id row = rq_session_id request
                \<and> ag_dominant_emotion row = ''neutral''
                \<and> ag_emotion_confidence row = 0
                \<and> ag_emotion_distribution row = []"
proof -
  have c: "classified env (slice_to (MAX_IMAGES_TO_PROCESS (settings env)) found) = []"
    using assms(2) by (rule classified_all_raise)
  define w6 where "w6 = called (InsertAggregatedEmotion (rq_session_id request))
             (called (AggregateEmotions 0)
                (snd (analyze_matched env (rq_session_id request)
                        (slice_to (MAX_IMAGES_TO_PROCESS (settings env)) found) []
                        (snd (search_candidates env request w)))))"
  have f: "db_txns w6 = Suc (db_txns w)" "uuids w6 = uuids w"
    "session_aggregated_emotion w6 = session_aggregated_emotion w"
    by (simp_all add: w6_def called_simps analyze_matched_frame search_candidates_frame c)
  have "session_aggregated_emotion (snd (search_photos env request w)) =
     session_aggregated_emotion
       (snd (insert_aggregated_emotion env (rq_session_id request) ''neutral'' 0 []
          (statement_of env ''neutral'' 0) w6))"
    by (simp add: search_photos_aggregated_table[OF assms(1)] c aggregate_emotions_empty w6_def)
  also have "\<dots> = session_aggregated_emotion w6 @
       [\<lparr>ag_aggregation_id = uuid4 env (uuids w6), ag_session_id = rq_session_id request,
         ag_dominant_emotion = ''neutral'', ag_emotion_confidence = 0,
         ag_emotion_distribution = [], ag_statement = statement_of env ''neutral'' 0,
         ag_created_at = utcnow env (clock_reads w6)\<rparr>]"
    using assms(3-5) by (intro insert_aggregated_emotion_row) (simp_all add: f)
  finally show ?thesis
    by (simp add: f)
qed

text \<open>
  C1, as the code has it. When steps 1 to 5 have found candidates and the classifier raises
  on every candidate processed, \<open>search_photos\<close> does not fail: \<open>emotion_results\<close> is empty,
  \<open>aggregate_emotions\<close> returns \<open>('neutral', 0.0, {})\<close> for the empty list, and the response
  has \<open>matched_count = 0\<close>, no image and that aggregated state. \<open>insert_aggregated_emotion\<close>
  is called, and when its transaction commits the aggregated row of the session is stored
  with these values.
\<close>

theorem all_classifications_fail:
  assumes "fst (search_candidates env request w) = Inr found"
    and "\<forall>img \<in> set (slice_to (MAX_IMAGES_TO_PROCESS (settings env)) found). raises env img"
  shows "fst (search_photos env request w)
           = Inr \<lparr>rs_matched_count = 0, rs_matched_images = [],
                  rs_aggregated_state = (''neutral'', 0, []),
                  rs_statement = statement_of env ''neutral'' 0,
                  rs_session_id = rq_session_id request\<rparr>
       \<and> InsertAggregatedEmotion (rq_session_id request)
           \<in> set (calls (snd (search_photos env request w)))
       \<and> (db_error env (Suc (db_txns w)) = None
            \<and> uuid4 env (uuids w) \<notin> ag_aggregation_id ` set (session_aggregated_emotion w)
            \<and> rq_session_id request \<notin> ag_session_id ` set (session_aggregated_emotion w) \<longrightarrow>
          (\<exists>row. session_aggregated_emotion (snd (search_photos env request w))
                    = session_aggregated_emotion w @ [row]
                \<and> ag_session_id row = rq_session_id request
                \<and> ag_dominant_emotion row = ''neutral''
                \<and> ag_emotion_confidence row = 0
                \<and> ag_emotion_distribution row = []))"
proof (intro conjI impI)
  have c: "classified env (slice_to (MAX_IMAGES_TO_PROCESS (settings env)) found) = []"
    using assms(2) by (rule classified_all_raise)
  show "fst (search_photos env request w)
           = Inr \<lparr>rs_matched_count = 0, rs_matched_images = [],
                  rs_aggregated_state = (''neutral'', 0, []),
                  rs_statement = statement_of env ''neutral'' 0,
                  rs_session_id = rq_session_id request\<rparr>"
    by (simp add: search_photos_response[OF assms(1)] c aggregate_emotions_empty)
  show "InsertAggregatedEmotion (rq_session_id request)
           \<in> set (calls (snd (search_photos env request w)))"
    by (simp add: search_photos_calls[OF assms(1)])
  assume "db_error env (Suc (db_txns w)) = None
            \<and> uuid4 env (uuids w) \<notin> ag_aggregation_id ` set (session_aggregated_emotion w)
            \<and> rq_session_id request \<notin> ag_session_id ` set (session_aggregated_emotion w)"
  then show "\<exists>row. session_aggregated_emotion (snd (search_photos env request w))
                    = session_aggregated_emotion w @ [row]
                \<and> ag_session_id row = rq_session_id request
                \<and> ag_dominant_emotion row = ''neutral''
                \<and> ag_emotion_confidence row = 0
                \<and> ag_emotion_distribution row = []"
    using all_raise_aggregated_row[OF assms] by blast
qed

lemma all_fail_candidates:
  "fst (search_candidates all_fail_env sample_request empty_world) = Inr [image1, image2]"
  using sample_candidates
    search_candidates_emotion_service[where env = sample_env
      and f = "\<lambda>p. Inl (Exception ''model error'')" and request = sample_request
      and w = empty_world]
  by (simp add: all_fail_env_def)

theorem all_classifications_fail_witness:
  "fst (search_candidates all_fail_env sample_request empty_world) = Inr [image1, image2]
   \<and> raises all_fail_env image1 \<and> raises all_fail_env image2
   \<and> fst (search_photos all_fail_env sample_request empty_world)
       = Inr \<lparr>rs_matched_count = 0, rs_matched_images = [],
              rs_aggregated_state = (''neutral'', 0, []),
              rs_statement = statement_of all_fail_env ''neutral'' 0,
              rs_session_id = rq_session_id sample_request\<rparr>
   \<and> (\<exists>row. session_aggregated_emotion (snd (search_photos all_fail_env sample_request empty_world))
               = session_aggregated_emotion empty_world @ [row]
           \<and> ag_dominant_emotion row = ''neutral'')"
proof -
  have r: "raises all_fail_env image1" "raises all_fail_env image2"
    by (simp_all add: raises_def all_fail_env_def)
  have s: "slice_to (MAX_IMAGES_TO_PROCESS (settings all_fail_env)) [image1, image2]
      = [image1, image2]"
    by (simp add: slice_to_def all_fail_env_def sample_env_def default_settings_def)
  have h2: "\<forall>img \<in> set (slice_to (MAX_IMAGES_TO_PROCESS (settings all_fail_env)) [image1, image2]).
      raises all_fail_env img"
    unfolding s using r by simp
  have h3: "db_error all_fail_env (Suc (db_txns empty_world)) = None
      \<and> uuid4 all_fail_env (uuids empty_world)
          \<notin> ag_aggregation_id ` set (session_aggregated_emotion empty_world)
      \<and> rq_session_id sample_request
          \<notin> ag_session_id ` set (session_aggregated_emotion empty_world)"
    by (simp add: all_fail_env_def sample_env_def empty_world_def)
  from all_classifications_fail[OF all_fail_candidates h2] h3
  have "fst (search_photos all_fail_env sample_request empty_world)
       = Inr \<lparr>rs_matched_count = 0, rs_matched_images = [],
              rs_aggregated_state = (''neutral'', 0, []),
              rs_statement = statement_of all_fail_env ''neutral'' 0,
              rs_session_id = rq_session_id sample_request\<rparr>
   \<and> (\<exists>row. session_aggregated_emotion (snd (search_photos all_fail_env sample_request empty_world))
               = session_aggregated_emotion empty_world @ [row]
           \<and> ag_dominant_emotion row = ''neutral'')"
    by blast
  with all_fail_candidates r show ?thesis by blast
qed

lemma missing_files_search:
  "image_open missing_files_env (c_image_path image1) = Some ''No such file''
   \<and> similarity_index missing_files_env 2 50 (6 / 10) = [image1]
   \<and> fst (search_photos missing_files_env sample_request empty_world)
       = Inr \<lparr>rs_matched_count = 1,
              rs_matched_images =
                [\<lparr>r_image_id = ''1'', r_image_url = ''https://example.com/image1.jpg'',
                  r_emotion = ''neutral'', r_emotion_distribution = [],
                  r_emotion_confidence = 0, r_similarity_score = 95 / 100\<rparr>],
              rs_aggregated_state = (''neutral'', 1, [(''neutral'', 1)]),
              rs_statement = ''The person's emotion state is NEUTRAL (100.0% confidence)'',
              rs_session_id = ''s-1''\<rparr>
   \<and> map (\<lambda>a. (ag_session_id a, ag_dominant_emotion a, ag_emotion_confidence a))
        (session_aggregated_emotion (snd (search_photos missing_files_env sample_request empty_world)))
       = [(''s-1'', ''neutral'', 1)]"
  by code_simp

text \<open>
  C1 as stated asks for an EmotionAnalysisFailed error and no aggregated row. On the sample
  request with a classifier that raises on both candidates found, the search returns a
  response and the aggregated row is stored. So it does with the source's own placeholders
  when the image of the one candidate does not load: \<open>analyze_emotion\<close> then returns its
  neutral fallback and the response counts one record.
\<close>

theorem all_fail_search_succeeds_counterexample:
  "fst (search_candidates all_fail_env sample_request empty_world) = Inr [image1, image2]
   \<and> emotion_service all_fail_env (c_image_path image1) = Inl (Exception ''model error'')
   \<and> emotion_service all_fail_env (c_image_path image2) = Inl (Exception ''model error'')
   \<and> fst (search_photos all_fail_env sample_request empty_world)
       = Inr \<lparr>rs_matched_count = 0, rs_matched_images = [],
              rs_aggregated_state = (''neutral'', 0, []),
              rs_statement = ''The person's emotion state is NEUTRAL (0.0% confidence)'',
              rs_session_id = ''s-1''\<rparr>
   \<and> map (\<lambda>a. (ag_session_id a, ag_dominant_emotion a, ag_emotion_confidence a))
        (session_aggregated_emotion (snd (search_photos all_fail_env sample_request empty_world)))
       = [(''s-1'', ''neutral'', 0)]
   \<and> image_open missing_files_env (c_image_path image1) = Some ''No such file''
   \<and> \<not> isl (fst (search_photos missing_files_env sample_request empty_world))
   \<and> map (\<lambda>a. (ag_session_id a, ag_dominant_emotion a, ag_emotion_confidence a))
        (session_aggregated_emotion
           (snd (search_photos missing_files_env sample_request empty_world)))
       = [(''s-1'', ''neutral'', 1)]"
proof -
  have m: "\<not> isl (fst (search_photos missing_files_env sample_request empty_world))"
    using missing_files_search by simp
  have e: "emotion_service all_fail_env (c_image_path image1) = Inl (Exception ''model error'')"
    "emotion_service all_fail_env (c_image_path image2) = Inl (Exception ''model error'')"
    by (simp_all add: all_fail_env_def)
  have s: "slice_to (MAX_IMAGES_TO_PROCESS (settings all_fail_env)) [image1, image2]
      = [image1, image2]"
    by (simp add: slice_to_def all_fail_env_def sample_env_def default_settings_def)
  have c: "classified all_fail_env [image1, image2] = []"
    by (simp add: classified_def raises_def e)
  have st: "statement_of all_fail_env ''neutral'' 0
      = ''The person's emotion state is NEUTRAL (0.0% confidence)''"
    by (simp add: statement_of_def all_fail_env_def sample_env_def)
  have r: "fst (search_photos all_fail_env sample_request empty_world)
       = Inr \<lparr>rs_matched_count = 0, rs_matched_images = [],
              rs_aggregated_state = (''neutral'', 0, []),
              rs_statement = ''The person's emotion state is NEUTRAL (0.0% confidence)'',
              rs_session_id = ''s-1''\<rparr>"
    by (simp add: search_photos_response[OF all_fail_candidates] s c aggregate_emotions_empty st)
       (simp add: sample_request_def)
  have s': "\<forall>img \<in> set (slice_to (MAX_IMAGES_TO_PROCESS (settings all_fail_env)) [image1, image2]).
      raises all_fail_env img"
    unfolding s by (simp add: raises_def e)
  have "\<exists>row. session_aggregated_emotion (snd (search_photos all_fail_env sample_request empty_world))
                    = session_aggregated_emotion empty_world @ [row]
                \<and> ag_session_id row = rq_session_id sample_request
                \<and> ag_dominant_emotion row = ''neutral''
                \<and> ag_emotion_confidence row = 0
                \<and> ag_emotion_distribution row = []"
    by (rule all_raise_aggregated_row[OF all_fail_candidates s'])
       (simp_all add: all_fail_env_def sample_env_def empty_world_def)
  then have a: "map (\<lambda>a. (ag_session_id a, ag_dominant_emotion a, ag_emotion_confidence a))
        (session_aggregated_emotion (snd (search_photos all_fail_env sample_request empty_world)))
       = [(''s-1'', ''neutral'', 0)]"
    by (auto simp: empty_world_def sample_request_def)
  show ?thesis using all_fail_candidates e r a m missing_files_search by blast
qed

section \<open>Emotion rows are written on a best-effort basis\<close>













section \<open>The consent flag\<close>

lemma save_session_and_image_flag:
  "fst (save_session_and_image env (request\<lparr>rq_privacy_policy_agreed := a\<rparr>) w)
     = fst (save_session_and_image env request w)"
proof -
  have i: "fst (insert_session_user env (rq_session_id request) (rq_user_name request)
                (rq_captured_image request) a
                (called (InsertSessionUser (rq_session_id request)) w))
      = fst (insert_session_user env (rq_session_id request) (rq_user_name request)
                (rq_captured_image request) (rq_privacy_policy_agreed request)
                (called (InsertSessionUser (rq_session_id request)) w))"
    by (rule insert_session_user_flag)
  show ?thesis
    unfolding save_session_and_image_cases
    by (simp add: i) (blast intro: upload_image_to_s3_result)
qed

lemma search_candidates_result:
  "fst (search_candidates env request w) =
     (case fst (save_session_and_image env request w) of
        Inl e \<Rightarrow> Inl e
      | Inr p \<Rightarrow>
          (case decode_base64 env (rq_captured_image request) of
             Inl e \<Rightarrow> Inl e
           | Inr image_bytes \<Rightarrow>
          (case detect_and_align_face env image_bytes of
             None \<Rightarrow> Inl (HTTPException 400
                    ''No face detected in the image. Please try again with a clearer image.'')
           | Some aligned_face \<Rightarrow>
          (case extract_embedding env aligned_face of
             None \<Rightarrow> Inl (Exception no_shape_message)
           | Some embedding \<Rightarrow>
               (if similarity_index env embedding (MAX_IMAGES_TO_PROCESS (settings env))
                     (FACE_SIMILARITY_THRESHOLD (settings env)) = []
                then Inl (HTTPException 404 ''No matching faces found in the database.'')
                else Inr (similarity_index env embedding (MAX_IMAGES_TO_PROCESS (settings env))
                            (FACE_SIMILARITY_THRESHOLD (settings env))))))))"
proof (cases "fst (save_session_and_image env request w)")
  case (Inl e)
  then show ?thesis by (simp add: search_candidates_save_error)
next
  case (Inr p)
  show ?thesis
    unfolding search_candidates_saved[OF Inr] Inr
    by (simp split: sum.splits option.splits)
qed

lemma search_candidates_flag:
  "fst (search_candidates env (request\<lparr>rq_privacy_policy_agreed := a\<rparr>) w)
     = fst (search_candidates env request w)"
  unfolding search_candidates_result save_session_and_image_flag
  by (simp cong: sum.case_cong)

lemma search_photos_result:
  "fst (search_photos env request w) =
     (case fst (search_candidates env request w) of
        Inl e \<Rightarrow> Inl (http_error e)
      | Inr found \<Rightarrow>
          Inr \<lparr>rs_matched_count =
             int (length (classified env (slice_to (MAX_IMAGES_TO_PROCESS (settings env)) found))),
           rs_matched_images = classified env (slice_to (MAX_IMAGES_TO_PROCESS (settings env)) found),
           rs_aggregated_state =
             projr (aggregate_emotions
                      (classified env (slice_to (MAX_IMAGES_TO_PROCESS (settings env)) found))),
           rs_statement =
             statement_of env
               (fst (projr (aggregate_emotions
                      (classified env (slice_to (MAX_IMAGES_TO_PROCESS (settings env)) found)))))
               (fst (snd (projr (aggregate_emotions
                      (classified env (slice_to (MAX_IMAGES_TO_PROCESS (settings env)) found)))))),
           rs_session_id = rq_session_id request\<rparr>)"
proof (cases "fst (search_candidates env request w)")
  case (Inl e)
  then show ?thesis by (simp add: search_photos_error)
next
  case (Inr found)
  then show ?thesis by (simp add: search_photos_response)
qed

lemma search_photos_flag:
  "fst (search_photos env (request\<lparr>rq_privacy_policy_agreed := a\<rparr>) w)
     = fst (search_photos env request w)"
  unfolding search_photos_result search_candidates_flag
  by (simp cong: sum.case_cong)

lemma search_candidates_first_calls:
  "\<exists>rest. calls (snd (search_candidates env request w)) =
       calls (snd (save_session_and_image env request w)) @ rest"
proof (cases "fst (save_session_and_image env request w)")
  case (Inl e)
  then show ?thesis by (simp add: search_candidates_save_error)
next
  case (Inr p)
  show ?thesis
    unfolding search_candidates_saved[OF Inr]
    by (simp add: called_simps split: sum.splits option.splits)
qed

lemma search_photos_first_calls:
  "\<exists>rest. calls (snd (search_photos env request w)) =
       calls (snd (save_session_and_image env request w)) @ rest"
proof (cases "fst (search_candidates env request w)")
  case (Inl e)
  then show ?thesis
    using search_candidates_first_calls[of env request w] by (simp add: search_photos_error)
next
  case (Inr found)
  obtain rest where "calls (snd (search_candidates env request w)) =
       calls (snd (save_session_and_image env request w)) @ rest"
    using search_candidates_first_calls by blast
  then show ?thesis
    by (simp add: search_photos_found[OF Inr] Let_def called_simps called_def
        insert_aggregated_emotion_frame analyze_matched_frame)
qed

lemma save_session_and_image_upload_call:
  assumes "fst (insert_session_user env (rq_session_id request) (rq_user_name request)
                (rq_captured_image request) (rq_privacy_policy_agreed request)
                (called (InsertSessionUser (rq_session_id request)) w)) = Inr ()"
  shows "calls (snd (save_session_and_image env request w)) =
       calls w @ [InsertSessionUser (rq_session_id request), UploadImage (rq_session_id request)]"
  using assms
  by (simp add: save_session_and_image_cases insert_session_user_frame
      upload_image_to_s3_frame called_simps)

text \<open>
  C2, as the code has it. A request with \<open>privacy_policy_agreed = false\<close> is not rejected
  for it: its outcome is the outcome of the same request with the flag true. The first call
  is \<open>insert_session_user\<close>; when that insert commits, the session row is stored with
  \<open>privacy_policy_agreed = 'False'\<close> and the upload of the image is the next call.
\<close>

theorem consent_flag_is_only_stored:
  "\<not> rq_privacy_policy_agreed request \<longrightarrow>
     fst (search_photos env request w)
       = fst (search_photos env (request\<lparr>rq_privacy_policy_agreed := True\<rparr>) w)
     \<and> (\<exists>rest. calls (snd (search_photos env request w))
                 = calls w @ InsertSessionUser (rq_session_id request) # rest)
     \<and> (db_error env (db_txns w) = None
          \<and> rq_session_id request \<notin> su_session_id ` set (session_user w) \<longrightarrow>
        (\<exists>user. session_user (snd (search_photos env request w)) = session_user w @ [user]
            \<and> su_session_id user = rq_session_id request
            \<and> su_privacy_policy_agreed user = ''False'')
        \<and> (\<exists>rest. calls (snd (search_photos env request w))
                 = calls w @ InsertSessionUser (rq_session_id request)
                     # UploadImage (rq_session_id request) # rest))"
proof (intro impI conjI)
  assume n: "\<not> rq_privacy_policy_agreed request"
  show "fst (search_photos env request w)
       = fst (search_photos env (request\<lparr>rq_privacy_policy_agreed := True\<rparr>) w)"
    by (simp only: search_photos_flag)
  obtain r1 where r1: "calls (snd (save_session_and_image env request w))
      = calls w @ InsertSessionUser (rq_session_id request) # r1"
    using save_session_and_image_first_call by blast
  obtain r2 where r2: "calls (snd (search_photos env request w)) =
       calls (snd (save_session_and_image env request w)) @ r2"
    using search_photos_first_calls by blast
  show "\<exists>rest. calls (snd (search_photos env request w))
                 = calls w @ InsertSessionUser (rq_session_id request) # rest"
    unfolding r2 r1 by simp
  assume "db_error env (db_txns w) = None
          \<and> rq_session_id request \<notin> su_session_id ` set (session_user w)"
  then have ok: "fst (insert_session_user env (rq_session_id request) (rq_user_name request)
                (rq_captured_image request) (rq_privacy_policy_agreed request)
                (called (InsertSessionUser (rq_session_id request)) w)) = Inr ()"
    by (simp add: insert_session_user_commits called_simps)
  show "\<exists>user. session_user (snd (search_photos env request w)) = session_user w @ [user]
            \<and> su_session_id user = rq_session_id request
            \<and> su_privacy_policy_agreed user = ''False''"
    unfolding search_photos_session_user insert_session_user_row[OF ok]
    using n by (simp add: called_simps str_of_bool_def)
  show "\<exists>rest. calls (snd (search_photos env request w))
                 = calls w @ InsertSessionUser (rq_session_id request)
                     # UploadImage (rq_session_id request) # rest"
    unfolding r2 save_session_and_image_upload_call[OF ok] by simp
qed

theorem consent_flag_is_only_stored_witness:
  "\<not> rq_privacy_policy_agreed no_consent_request
   \<and> db_error sample_env (db_txns empty_world) = None
   \<and> rq_session_id no_consent_request \<notin> su_session_id ` set (session_user empty_world)
   \<and> fst (search_photos sample_env no_consent_request empty_world)
       = fst (search_photos sample_env
                (no_consent_request\<lparr>rq_privacy_policy_agreed := True\<rparr>) empty_world)
   \<and> (\<exists>user. session_user (snd (search_photos sample_env no_consent_request empty_world))
                = session_user empty_world @ [user]
            \<and> su_privacy_policy_agreed user = ''False'')"
proof -
  have h1: "\<not> rq_privacy_policy_agreed no_consent_request"
    by (simp add: no_consent_request_def)
  have h2: "db_error sample_env (db_txns empty_world) = None"
    by (simp add: sample_env_def)
  have h3: "rq_session_id no_consent_request \<notin> su_session_id ` set (session_user empty_world)"
    by (simp add: empty_world_def)
  from consent_flag_is_only_stored[of no_consent_request sample_env empty_world] h1 h2 h3
  have "fst (search_photos sample_env no_consent_request empty_world)
       = fst (search_photos sample_env
                (no_consent_request\<lparr>rq_privacy_policy_agreed := True\<rparr>) empty_world)
   \<and> (\<exists>user. session_user (snd (search_photos sample_env no_consent_request empty_world))
                = session_user empty_world @ [user]
            \<and> su_privacy_policy_agreed user = ''False'')"
    by blast
  with h1 h2 h3 show ?thesis by blast
qed

text \<open>
  C2 as stated asks for a ConsentRequired rejection before any write. The sample request
  without consent gets a response; the session row and the S3 object are written and every
  step of the route is called.
\<close>

theorem no_consent_search_proceeds_counterexample:
  "\<not> rq_privacy_policy_agreed no_consent_request
   \<and> \<not> isl (fst (search_photos sample_env no_consent_request empty_world))
   \<and> map (\<lambda>u. (su_session_id u, su_privacy_policy_agreed u))
        (session_user (snd (search_photos sample_env no_consent_request empty_world)))
       = [(''s-1'', ''False'')]
   \<and> map fst (s3_objects (snd (search_photos sample_env no_consent_request empty_world)))
       = [(''face-emotion-bucket'', ''sessions/s-1/captured.jpg'')]
   \<and> calls (snd (search_photos sample_env no_consent_request empty_world))
       = [InsertSessionUser ''s-1'', UploadImage ''s-1'', DetectFace, ExtractEmbedding,
          GetMatchedImages, AnalyzeEmotion ''/path/to/image1.jpg'', InsertEmotionLog ''1'',
          AnalyzeEmotion ''/path/to/image2.jpg'', AggregateEmotions 1,
          InsertAggregatedEmotion ''s-1'', AddCleanupTask ''s-1'']"
  by code_simp

end
